theory Spec2Isabelle
  imports Complex_Main
begin

section \<open>The arcball rotation controller (src/RotationController.js)\<close>

text \<open>
  A shallow embedding of the class \<open>RotationController\<close>. JavaScript numbers are
  modelled as real numbers: \<open>Math.sqrt\<close>, \<open>Math.acos\<close>, \<open>Math.asin\<close>,
  \<open>Math.sin\<close> and \<open>Math.cos\<close> are the real functions, so rounding, NaN,
  infinities and signed zeros are outside the model. The one place where rounding decides
  an outcome, the count of momentum ticks, has a second model of the handler with the
  rounding as a parameter (\<open>rotationTimerHandlerFl\<close> below). Division is HOL's total division;
  it agrees with the program wherever the divisor is not zero, which is why the theorems
  that go through the screen-to-ball mapping ask for positive view bounds and a ball
  radius other than zero (\<open>validGeometry\<close> below).

  Every method mutates \<open>this\<close>; here it takes the controller and returns the updated
  one. The controller record also holds the two pieces of the environment that the
  methods act on: the orientation of the target (\<open>this.model.quaternion\<close>) and the
  table of interval timers that \<open>setInterval\<close> and \<open>clearInterval\<close> manage.
\<close>

subsection \<open>Data\<close>

record Vector3 =
  vx :: real
  vy :: real
  vz :: real

record Quaternion =
  qx :: real
  qy :: real
  qz :: real
  qw :: real

text \<open>A screen location or a velocity: an object with fields \<open>x\<close> and \<open>y\<close>.\<close>

record Point2 =
  px :: real
  py :: real

record ViewBounds =
  width :: real
  height :: real

text \<open>Euler angles with fields \<open>x\<close>, \<open>y\<close>, \<open>z\<close> (the order is always XYZ here).\<close>

record Euler =
  ex :: real
  ey :: real
  ez :: real

text \<open>The object \<open>anglePackage\<close> that \<open>endDrag\<close> creates and the timer callback keeps.\<close>

record AnglePackage =
  radiansBegin :: real
  radians :: real

text \<open>
  The fields of the controller, in the order of the constructor. \<open>onRender\<close> is
  \<open>null\<close> or a callback: the model keeps whether a callback is set and counts its
  invocations in \<open>renderCalls\<close>. \<open>rotationTimer\<close> is \<open>null\<close> or the identifier
  that \<open>setInterval\<close> returned. \<open>intervals\<close> is the environment's table of running
  interval timers, each with the \<open>anglePackage\<close> its callback closes over, and
  \<open>nextIntervalId\<close> the identifier the next \<open>setInterval\<close> will return.
\<close>

record Controller =
  modelQuaternion :: Quaternion
  viewBounds :: ViewBounds
  startVector :: Vector3
  isDragging :: bool
  rotationTimer :: "nat option"
  ballCenter :: Point2
  ballRadius :: real
  quaternion :: Quaternion
  quaternionTouchDown :: Quaternion
  angleOfRotation :: real
  axisOfRotation :: Vector3
  onRender :: bool
  renderCalls :: nat
  intervals :: "(nat \<times> AnglePackage) list"
  nextIntervalId :: nat

definition kRotationRate :: real where
  "kRotationRate = 1.0 / 30.0"

definition kRotationDecelerationRate :: real where
  "kRotationDecelerationRate = 1.0 / 60.0"

subsection \<open>The functions of three.js that the controller calls\<close>

text \<open>
  three.js is a dependency, not part of the repository; these are its documented
  computations: \<open>Vector3.dot\<close>, \<open>Vector3.crossVectors\<close>, \<open>Vector3.length\<close>,
  \<open>Vector3.normalize\<close> (which divides by \<open>length() || 1\<close>),
  \<open>Quaternion.setFromAxisAngle\<close>, \<open>Quaternion.multiplyQuaternions\<close>,
  \<open>Quaternion.setFromEuler\<close> and \<open>Euler.setFromQuaternion\<close> for the order XYZ,
  \<open>MathUtils.degToRad\<close> and \<open>MathUtils.radToDeg\<close>.
\<close>

definition dot :: "Vector3 \<Rightarrow> Vector3 \<Rightarrow> real" where
  "dot a b = vx a * vx b + vy a * vy b + vz a * vz b"

definition crossVectors :: "Vector3 \<Rightarrow> Vector3 \<Rightarrow> Vector3" where
  "crossVectors a b =
     \<lparr>vx = vy a * vz b - vz a * vy b,
      vy = vz a * vx b - vx a * vz b,
      vz = vx a * vy b - vy a * vx b\<rparr>"

definition lengthV :: "Vector3 \<Rightarrow> real" where
  "lengthV v = sqrt (vx v * vx v + vy v * vy v + vz v * vz v)"

definition multiplyScalar :: "Vector3 \<Rightarrow> real \<Rightarrow> Vector3" where
  "multiplyScalar v k = \<lparr>vx = vx v * k, vy = vy v * k, vz = vz v * k\<rparr>"

definition normalizeV :: "Vector3 \<Rightarrow> Vector3" where
  "normalizeV v = multiplyScalar v (1 / (if lengthV v = 0 then 1 else lengthV v))"

definition setFromAxisAngle :: "Vector3 \<Rightarrow> real \<Rightarrow> Quaternion" where
  "setFromAxisAngle axis angle =
     (let halfAngle = angle / 2; s = sin halfAngle
      in \<lparr>qx = vx axis * s, qy = vy axis * s, qz = vz axis * s, qw = cos halfAngle\<rparr>)"

definition multiplyQuaternions :: "Quaternion \<Rightarrow> Quaternion \<Rightarrow> Quaternion" where
  "multiplyQuaternions a b =
     \<lparr>qx = qx a * qw b + qw a * qx b + qy a * qz b - qz a * qy b,
      qy = qy a * qw b + qw a * qy b + qz a * qx b - qx a * qz b,
      qz = qz a * qw b + qw a * qz b + qx a * qy b - qy a * qx b,
      qw = qw a * qw b - qx a * qx b - qy a * qy b - qz a * qz b\<rparr>"

definition degToRad :: "real \<Rightarrow> real" where
  "degToRad degrees = degrees * (pi / 180)"

definition radToDeg :: "real \<Rightarrow> real" where
  "radToDeg r = r * (180 / pi)"

definition clamp :: "real \<Rightarrow> real \<Rightarrow> real \<Rightarrow> real" where
  "clamp v lo hi = max lo (min hi v)"

text \<open>\<open>Math.atan2(y, x)\<close> on real numbers (signed zeros are not modelled).\<close>

definition atan2 :: "real \<Rightarrow> real \<Rightarrow> real" where
  "atan2 y x =
     (if 0 < x then arctan (y / x)
      else if x < 0 then (if 0 \<le> y then arctan (y / x) + pi else arctan (y / x) - pi)
      else if 0 < y then pi / 2
      else if y < 0 then - (pi / 2)
      else 0)"

definition setFromEuler :: "Euler \<Rightarrow> Quaternion" where
  "setFromEuler e =
     (let c1 = cos (ex e / 2); c2 = cos (ey e / 2); c3 = cos (ez e / 2);
          s1 = sin (ex e / 2); s2 = sin (ey e / 2); s3 = sin (ez e / 2)
      in \<lparr>qx = s1 * c2 * c3 + c1 * s2 * s3,
          qy = c1 * s2 * c3 - s1 * c2 * s3,
          qz = c1 * c2 * s3 + s1 * s2 * c3,
          qw = c1 * c2 * c3 - s1 * s2 * s3\<rparr>)"

text \<open>
  \<open>Euler.setFromQuaternion(q, 'XYZ')\<close>: the rotation matrix of \<open>q\<close>
  (\<open>Matrix4.makeRotationFromQuaternion\<close>), then \<open>Euler.setFromRotationMatrix\<close>
  with its guard against gimbal lock.
\<close>

definition setFromQuaternion :: "Quaternion \<Rightarrow> Euler" where
  "setFromQuaternion q =
     (let x = qx q; y = qy q; z = qz q; w = qw q;
          x2 = x + x; y2 = y + y; z2 = z + z;
          xx = x * x2; xy = x * y2; xz = x * z2;
          yy = y * y2; yz = y * z2; zz = z * z2;
          wx = w * x2; wy = w * y2; wz = w * z2;
          m11 = 1 - (yy + zz); m12 = xy - wz; m13 = xz + wy;
          m22 = 1 - (xx + zz); m23 = yz - wx;
          m32 = yz + wx; m33 = 1 - (xx + yy);
          ay = arcsin (clamp m13 (- 1) 1)
      in if \<bar>m13\<bar> < 0.9999999
         then \<lparr>ex = atan2 (- m23) m33, ey = ay, ez = atan2 (- m12) m11\<rparr>
         else \<lparr>ex = atan2 m32 m22, ey = ay, ez = 0\<rparr>)"

subsection \<open>The environment: interval timers and the render callback\<close>

definition setInterval :: "AnglePackage \<Rightarrow> Controller \<Rightarrow> nat \<times> Controller" where
  "setInterval pkg s =
     (nextIntervalId s,
      s\<lparr>intervals := intervals s @ [(nextIntervalId s, pkg)],
        nextIntervalId := Suc (nextIntervalId s)\<rparr>)"

definition clearInterval :: "nat option \<Rightarrow> Controller \<Rightarrow> Controller" where
  "clearInterval t s =
     (case t of None \<Rightarrow> s
      | Some i \<Rightarrow> s\<lparr>intervals := filter (\<lambda>e. fst e \<noteq> i) (intervals s)\<rparr>)"

text \<open>\<open>if (this.onRender) { this.onRender(); }\<close>\<close>

definition triggerRender :: "Controller \<Rightarrow> Controller" where
  "triggerRender s = (if onRender s then s\<lparr>renderCalls := Suc (renderCalls s)\<rparr> else s)"

subsection \<open>The methods\<close>

definition constructor :: "Quaternion \<Rightarrow> ViewBounds \<Rightarrow> Controller" where
  "constructor mq rect =
     \<lparr>modelQuaternion = mq,
      viewBounds = \<lparr>width = width rect, height = height rect\<rparr>,
      startVector = \<lparr>vx = 0, vy = 0, vz = 0\<rparr>,
      isDragging = False,
      rotationTimer = None,
      ballCenter = \<lparr>px = 0.0, py = 0.0\<rparr>,
      ballRadius = 1.0,
      quaternion = mq,
      quaternionTouchDown = mq,
      angleOfRotation = 0,
      axisOfRotation = \<lparr>vx = 0, vy = 0, vz = 0\<rparr>,
      onRender = False,
      renderCalls = 0,
      intervals = [],
      nextIntervalId = 1\<rparr>"

definition reshape :: "ViewBounds \<Rightarrow> Controller \<Rightarrow> Controller" where
  "reshape vb s = s\<lparr>viewBounds := vb\<rparr>"

definition locationInBallCoordinates :: "Controller \<Rightarrow> Point2 \<Rightarrow> Point2" where
  "locationInBallCoordinates s screenLocation =
     (let ballBBoxSizeScreenCoordinates = max (width (viewBounds s)) (height (viewBounds s));
          x0 = (2.0 * (px screenLocation - 0) / width (viewBounds s)) - 1.0;
          x1 = x0 * (width (viewBounds s) / ballBBoxSizeScreenCoordinates);
          y0 = (2.0 * (py screenLocation - 0) / height (viewBounds s)) - 1.0;
          y1 = y0 * (height (viewBounds s) / ballBBoxSizeScreenCoordinates);
          y2 = y1 * (- 1.0)
      in \<lparr>px = x1, py = y2\<rparr>)"

definition ballLocationInCameraSpaceXYPlane :: "Controller \<Rightarrow> Point2 \<Rightarrow> Vector3" where
  "ballLocationInCameraSpaceXYPlane s screenLocation =
     (let loc = locationInBallCoordinates s screenLocation;
          ballLocation_x = (px loc - px (ballCenter s)) / ballRadius s;
          ballLocation_y = (py loc - py (ballCenter s)) / ballRadius s;
          magnitude = ballLocation_x * ballLocation_x + ballLocation_y * ballLocation_y
      in if magnitude > 1.0
         then (let scale = 1.0 / sqrt magnitude
               in \<lparr>vx = ballLocation_x * scale, vy = ballLocation_y * scale, vz = 0\<rparr>)
         else \<lparr>vx = ballLocation_x, vy = ballLocation_y, vz = sqrt (1 - magnitude)\<rparr>)"

definition ballLocationInCameraSpaceXZPlane :: "Controller \<Rightarrow> Point2 \<Rightarrow> Vector3" where
  "ballLocationInCameraSpaceXZPlane s screenLocation =
     (let loc = locationInBallCoordinates s screenLocation;
          ballLocation_x = (px loc - px (ballCenter s)) / ballRadius s;
          ballLocation_z = (py loc - py (ballCenter s)) / ballRadius s;
          magnitude = ballLocation_x * ballLocation_x + ballLocation_z * ballLocation_z
      in if magnitude > 1.0
         then (let scale = 1.0 / sqrt magnitude
               in \<lparr>vx = ballLocation_x * scale, vy = 0, vz = ballLocation_z * scale\<rparr>)
         else \<lparr>vx = ballLocation_x, vy = - sqrt (1 - magnitude), vz = ballLocation_z\<rparr>)"

text \<open>
  The view bounds and the ball radius with which no division of the mapping is by zero.
  Callers are expected to supply such bounds; the constructor's radius is 1.
\<close>

definition validGeometry :: "Controller \<Rightarrow> bool" where
  "validGeometry s \<longleftrightarrow>
     0 < width (viewBounds s) \<and> 0 < height (viewBounds s) \<and> ballRadius s \<noteq> 0"

text \<open>
  The in-plane squared magnitude \<open>m\<close> that both projections compute before they branch,
  and the two in-plane coordinates it is computed from.
\<close>

definition ballPlaneX :: "Controller \<Rightarrow> Point2 \<Rightarrow> real" where
  "ballPlaneX s p = (px (locationInBallCoordinates s p) - px (ballCenter s)) / ballRadius s"

definition ballPlaneY :: "Controller \<Rightarrow> Point2 \<Rightarrow> real" where
  "ballPlaneY s p = (py (locationInBallCoordinates s p) - py (ballCenter s)) / ballRadius s"

definition ballMagnitude :: "Controller \<Rightarrow> Point2 \<Rightarrow> real" where
  "ballMagnitude s p = ballPlaneX s p * ballPlaneX s p + ballPlaneY s p * ballPlaneY s p"

text \<open>\<open>Math.acos(Math.max(-1, Math.min(1, a.dot(b))))\<close>, as \<open>updateDrag\<close> and \<open>endDrag\<close> compute it.\<close>

definition angleBetween :: "Vector3 \<Rightarrow> Vector3 \<Rightarrow> real" where
  "angleBetween a b = arccos (max (- 1) (min 1 (dot a b)))"

definition beginDrag :: "Point2 \<Rightarrow> Controller \<Rightarrow> Controller" where
  "beginDrag screenLocation s =
     (let s1 = (if rotationTimer s \<noteq> None
                then (clearInterval (rotationTimer s) s)\<lparr>rotationTimer := None\<rparr>
                else s);
          s2 = s1\<lparr>isDragging := True\<rparr>
      in s2\<lparr>startVector := ballLocationInCameraSpaceXYPlane s2 screenLocation\<rparr>)"

definition updateDrag :: "Point2 \<Rightarrow> Controller \<Rightarrow> Controller" where
  "updateDrag screenLocation s =
     (let endVector = ballLocationInCameraSpaceXYPlane s screenLocation;
          s1 = s\<lparr>angleOfRotation := angleBetween (startVector s) endVector\<rparr>;
          s2 = s1\<lparr>axisOfRotation := crossVectors (startVector s1) endVector\<rparr>;
          axisLength = lengthV (axisOfRotation s2)
      in if axisLength < 0.0001 then s2
         else (let s3 = s2\<lparr>axisOfRotation := normalizeV (axisOfRotation s2)\<rparr>;
                   quaternionDrag = setFromAxisAngle (axisOfRotation s3) (angleOfRotation s3);
                   s4 = s3\<lparr>quaternion :=
                          multiplyQuaternions quaternionDrag (quaternionTouchDown s3)\<rparr>;
                   s5 = s4\<lparr>modelQuaternion := quaternion s4\<rparr>
               in triggerRender s5))"

definition endDrag :: "Point2 \<Rightarrow> Point2 \<Rightarrow> Controller \<Rightarrow> Controller" where
  "endDrag velocityInView locationInView s =
     (let s1 = s\<lparr>isDragging := False\<rparr>;
          s2 = s1\<lparr>quaternionTouchDown := quaternion s1\<rparr>;
          velocityMagnitude =
            sqrt (px velocityInView * px velocityInView + py velocityInView * py velocityInView)
      in if velocityMagnitude < 0.1 then s2
         else (let xx = kRotationRate * px velocityInView + px locationInView;
                   yy = kRotationRate * py velocityInView + py locationInView;
                   screenLocationTo = \<lparr>px = xx, py = yy\<rparr>;
                   a = ballLocationInCameraSpaceXYPlane s2 locationInView;
                   b = ballLocationInCameraSpaceXYPlane s2 screenLocationTo;
                   rad = angleBetween a b
               in if rad < 0.001 then s2
                  else (let anglePackage = \<lparr>radiansBegin = rad, radians = rad\<rparr>;
                            (t, s3) = setInterval anglePackage s2
                        in s3\<lparr>rotationTimer := Some t\<rparr>)))"

text \<open>
  The handler reads and writes the \<open>anglePackage\<close> it is given, so it returns the
  package together with the controller.
\<close>

definition rotationTimerHandler :: "AnglePackage \<times> Controller \<Rightarrow> AnglePackage \<times> Controller" where
  "rotationTimerHandler ps =
     (let anglePackage = fst ps; s = snd ps
      in if radians anglePackage < 0
         then (anglePackage, (clearInterval (rotationTimer s) s)\<lparr>rotationTimer := None\<rparr>)
         else (let updated = radians anglePackage
                       - kRotationDecelerationRate * radiansBegin anglePackage;
                   quaternionDrag = setFromAxisAngle (axisOfRotation s) updated;
                   s1 = s\<lparr>quaternion :=
                          multiplyQuaternions quaternionDrag (quaternionTouchDown s)\<rparr>;
                   s2 = s1\<lparr>modelQuaternion := quaternion s1\<rparr>;
                   s3 = s2\<lparr>quaternionTouchDown := quaternion s2\<rparr>
               in (anglePackage\<lparr>radians := updated\<rparr>, triggerRender s3)))"

text \<open>
  The environment fires the interval \<open>t\<close>: nothing happens when \<open>t\<close> is not running;
  otherwise the callback \<open>() => this.rotationTimerHandler(anglePackage)\<close> runs on the
  package of that timer, and the package keeps the handler's update.
\<close>

definition intervalFires :: "nat \<Rightarrow> Controller \<Rightarrow> Controller" where
  "intervalFires t s =
     (case map_of (intervals s) t of
        None \<Rightarrow> s
      | Some anglePackage \<Rightarrow>
          (let (pkg', s') = rotationTimerHandler (anglePackage, s)
           in s'\<lparr>intervals := map (\<lambda>e. if fst e = t then (t, pkg') else e) (intervals s')\<rparr>))"

definition isCurrentlyDragging :: "Controller \<Rightarrow> bool" where
  "isCurrentlyDragging s \<longleftrightarrow> isDragging s \<or> rotationTimer s \<noteq> None"

definition stopDrag :: "Controller \<Rightarrow> Controller" where
  "stopDrag s =
     (let s1 = s\<lparr>isDragging := False\<rparr>;
          s2 = (if rotationTimer s1 \<noteq> None
                then (clearInterval (rotationTimer s1) s1)\<lparr>rotationTimer := None\<rparr>
                else s1)
      in s2\<lparr>startVector := \<lparr>vx = 0, vy = 0, vz = 0\<rparr>\<rparr>)"

text \<open>The result of \<open>getRotationEuler\<close> is an object of three angles in degrees.\<close>

definition getRotationEuler :: "Controller \<Rightarrow> Euler" where
  "getRotationEuler s =
     (let euler = setFromQuaternion (modelQuaternion s)
      in \<lparr>ex = radToDeg (ex euler), ey = radToDeg (ey euler), ez = radToDeg (ez euler)\<rparr>)"

definition setRotationEuler :: "real \<Rightarrow> real \<Rightarrow> real \<Rightarrow> Controller \<Rightarrow> Controller" where
  "setRotationEuler x y z s =
     (let euler = \<lparr>ex = degToRad x, ey = degToRad y, ez = degToRad z\<rparr>;
          s1 = s\<lparr>modelQuaternion := setFromEuler euler\<rparr>;
          s2 = s1\<lparr>quaternion := modelQuaternion s1\<rparr>;
          s3 = s2\<lparr>quaternionTouchDown := modelQuaternion s2\<rparr>
      in triggerRender s3)"

text \<open>
  The five nudges share their body: a rotation about a fixed axis is multiplied onto the
  target's orientation from the left and copied into both orientation slots.
\<close>

definition applyRotation :: "Vector3 \<Rightarrow> real \<Rightarrow> Controller \<Rightarrow> Controller" where
  "applyRotation axis angle s =
     (let rotationQuaternion = setFromAxisAngle axis angle;
          s1 = s\<lparr>modelQuaternion := multiplyQuaternions rotationQuaternion (modelQuaternion s)\<rparr>;
          s2 = s1\<lparr>quaternion := modelQuaternion s1\<rparr>;
          s3 = s2\<lparr>quaternionTouchDown := modelQuaternion s2\<rparr>
      in triggerRender s3)"

definition rotateClockwise :: "real \<Rightarrow> Controller \<Rightarrow> Controller" where
  "rotateClockwise degrees s = applyRotation \<lparr>vx = 0, vy = 1, vz = 0\<rparr> (degToRad (- degrees)) s"

definition rotateCounterclockwise :: "real \<Rightarrow> Controller \<Rightarrow> Controller" where
  "rotateCounterclockwise degrees s = applyRotation \<lparr>vx = 0, vy = 1, vz = 0\<rparr> (degToRad degrees) s"

definition nudgePitchUp :: "real \<Rightarrow> Controller \<Rightarrow> Controller" where
  "nudgePitchUp degrees s = applyRotation \<lparr>vx = 1, vy = 0, vz = 0\<rparr> (degToRad degrees) s"

definition nudgePitchDown :: "real \<Rightarrow> Controller \<Rightarrow> Controller" where
  "nudgePitchDown degrees s = applyRotation \<lparr>vx = 1, vy = 0, vz = 0\<rparr> (degToRad (- degrees)) s"

definition nudgeRoll :: "real \<Rightarrow> Controller \<Rightarrow> Controller" where
  "nudgeRoll degrees s = applyRotation \<lparr>vx = 0, vy = 0, vz = 1\<rparr> (degToRad degrees) s"

subsection \<open>Sequences of calls\<close>

text \<open>
  What can happen to a controller: a call of one of its state-changing methods, the
  application assigning \<open>onRender\<close>, or the environment firing an interval timer.
\<close>

datatype Event =
    Reshape ViewBounds
  | BeginDrag Point2
  | UpdateDrag Point2
  | EndDrag Point2 Point2
  | IntervalFires nat
  | StopDrag
  | SetRotationEuler real real real
  | RotateClockwise real
  | RotateCounterclockwise real
  | NudgePitchUp real
  | NudgePitchDown real
  | NudgeRoll real
  | SetOnRender bool

fun step :: "Event \<Rightarrow> Controller \<Rightarrow> Controller" where
  "step (Reshape vb) s = reshape vb s"
| "step (BeginDrag p) s = beginDrag p s"
| "step (UpdateDrag p) s = updateDrag p s"
| "step (EndDrag v p) s = endDrag v p s"
| "step (IntervalFires t) s = intervalFires t s"
| "step StopDrag s = stopDrag s"
| "step (SetRotationEuler x y z) s = setRotationEuler x y z s"
| "step (RotateClockwise d) s = rotateClockwise d s"
| "step (RotateCounterclockwise d) s = rotateCounterclockwise d s"
| "step (NudgePitchUp d) s = nudgePitchUp d s"
| "step (NudgePitchDown d) s = nudgePitchDown d s"
| "step (NudgeRoll d) s = nudgeRoll d s"
| "step (SetOnRender b) s = s\<lparr>onRender := b\<rparr>"

fun run :: "Event list \<Rightarrow> Controller \<Rightarrow> Controller" where
  "run [] s = s"
| "run (e # es) s = run es (step e s)"

definition quaternionNormSq :: "Quaternion \<Rightarrow> real" where
  "quaternionNormSq q = qx q * qx q + qy q * qy q + qz q * qz q + qw q * qw q"

text \<open>The number of handler invocations in a row on one package.\<close>

fun ticks :: "nat \<Rightarrow> AnglePackage \<times> Controller \<Rightarrow> AnglePackage \<times> Controller" where
  "ticks 0 ps = ps"
| "ticks (Suc n) ps = rotationTimerHandler (ticks n ps)"

subsection \<open>The tick arithmetic in floating point\<close>

text \<open>
  The only arithmetic of the handler that decides when the animation ends is
  \<open>radians - this.kRotationDecelerationRate * radiansBegin\<close>, computed in doubles:
  the constant is the rounded quotient \<open>1.0 / 60.0\<close>, the product is rounded and the
  difference is rounded. \<open>rotationTimerHandlerFl fl\<close> is the handler with the
  rounding \<open>fl\<close> applied at these three places and is otherwise the handler above;
  with the identity for \<open>fl\<close> it is \<open>rotationTimerHandler\<close>. The rounding is a
  parameter: the theorems about it assume the standard model of floating-point
  arithmetic, \<open>|fl x - x| \<le> u * |x|\<close>, which round-to-nearest doubles satisfy with
  \<open>u = 2^-53\<close> away from underflow and overflow, and exact arithmetic with
  \<open>u = 0\<close>.
\<close>

definition rotationTimerHandlerFl ::
    "(real \<Rightarrow> real) \<Rightarrow> AnglePackage \<times> Controller \<Rightarrow> AnglePackage \<times> Controller" where
  "rotationTimerHandlerFl fl ps =
     (let anglePackage = fst ps; s = snd ps
      in if radians anglePackage < 0
         then (anglePackage, (clearInterval (rotationTimer s) s)\<lparr>rotationTimer := None\<rparr>)
         else (let updated = fl (radians anglePackage
                       - fl (fl kRotationDecelerationRate * radiansBegin anglePackage));
                   quaternionDrag = setFromAxisAngle (axisOfRotation s) updated;
                   s1 = s\<lparr>quaternion :=
                          multiplyQuaternions quaternionDrag (quaternionTouchDown s)\<rparr>;
                   s2 = s1\<lparr>modelQuaternion := quaternion s1\<rparr>;
                   s3 = s2\<lparr>quaternionTouchDown := quaternion s2\<rparr>
               in (anglePackage\<lparr>radians := updated\<rparr>, triggerRender s3)))"

fun ticksFl ::
    "(real \<Rightarrow> real) \<Rightarrow> nat \<Rightarrow> AnglePackage \<times> Controller \<Rightarrow> AnglePackage \<times> Controller" where
  "ticksFl fl 0 ps = ps"
| "ticksFl fl (Suc n) ps = rotationTimerHandlerFl fl (ticksFl fl n ps)"

text \<open>A rounding with relative error exactly \<open>2^-53\<close>, as an example of the model.\<close>

definition roundUp :: "real \<Rightarrow> real" where
  "roundUp x = x * (1 + 1 / 2 ^ 53)"

subsection \<open>Concrete inputs\<close>

text \<open>
  A controller fresh from the constructor, for a target in the identity orientation and
  a canvas of 800 by 600.
\<close>

definition identityQuaternion :: Quaternion where
  "identityQuaternion = \<lparr>qx = 0, qy = 0, qz = 0, qw = 1\<rparr>"

definition idleController :: Controller where
  "idleController = constructor identityQuaternion \<lparr>width = 800, height = 600\<rparr>"

text \<open>
  Sample inputs on that canvas: the centre of the canvas, a point 0.02 pixels to its right,
  and a release velocity that carries the extrapolated point from the centre to the right
  edge of the ball.
\<close>

definition centre :: Point2 where
  "centre = \<lparr>px = 400, py = 300\<rparr>"

definition nearCentre :: Point2 where
  "nearCentre = \<lparr>px = 400.02, py = 300\<rparr>"

definition flick :: Point2 where
  "flick = \<lparr>px = 12000, py = 0\<rparr>"

text \<open>The controller after a drag has begun at the centre of the canvas.\<close>

definition draggingController :: Controller where
  "draggingController = beginDrag \<lparr>px = 400, py = 300\<rparr> idleController"

text \<open>
  The controller after \<open>endDrag(flick, centre)\<close> has started momentum, and the
  \<open>anglePackage\<close> that this call creates.
\<close>

definition momentumPackage :: AnglePackage where
  "momentumPackage = \<lparr>radiansBegin = pi / 2, radians = pi / 2\<rparr>"

definition momentumController :: Controller where
  "momentumController = endDrag flick centre idleController"

text \<open>Dragging and a momentum timer are never both active.\<close>

definition exclusive :: "Controller \<Rightarrow> bool" where
  "exclusive s \<longleftrightarrow> \<not> (isDragging s \<and> rotationTimer s \<noteq> None)"

section \<open>The screen-to-ball mapping\<close>

lemma rescaled_unit:
  fixes x y :: real
  assumes "1 < x * x + y * y"
  shows "x * (1 / sqrt (x * x + y * y)) * (x * (1 / sqrt (x * x + y * y)))
       + y * (1 / sqrt (x * x + y * y)) * (y * (1 / sqrt (x * x + y * y))) = 1"
proof -
  define r where "r = sqrt (x * x + y * y)"
  have m: "0 < x * x + y * y" using assms by linarith
  have "0 < r" unfolding r_def using m by (rule real_sqrt_gt_zero)
  then have r0: "r \<noteq> 0" by simp
  have "0 \<le> x * x + y * y" using m by linarith
  then have r: "r * r = x * x + y * y" unfolding r_def by simp
  have "x * (1 / r) * (x * (1 / r)) + y * (1 / r) * (y * (1 / r)) = (x * x + y * y) / (r * r)"
    by (simp add: add_divide_distrib)
  also have "\<dots> = (r * r) / (r * r)" by (simp only: r)
  also have "\<dots> = 1" using r0 by simp
  finally show ?thesis by (simp add: r_def)
qed

lemma on_sphere_unit:
  fixes x y :: real
  assumes "\<not> 1 < x * x + y * y"
  shows "x * x + y * y + sqrt (1 - (x * x + y * y)) * sqrt (1 - (x * x + y * y)) = 1"
proof -
  have "0 \<le> 1 - (x * x + y * y)" using assms by linarith
  then have "sqrt (1 - (x * x + y * y)) * sqrt (1 - (x * x + y * y)) = 1 - (x * x + y * y)"
    by simp
  then show ?thesis by linarith
qed

lemma ballXY_cases:
  "ballLocationInCameraSpaceXYPlane s p =
     (if ballMagnitude s p > 1
      then \<lparr>vx = ballPlaneX s p * (1 / sqrt (ballMagnitude s p)),
            vy = ballPlaneY s p * (1 / sqrt (ballMagnitude s p)), vz = 0\<rparr>
      else \<lparr>vx = ballPlaneX s p, vy = ballPlaneY s p, vz = sqrt (1 - ballMagnitude s p)\<rparr>)"
  by (simp add: ballLocationInCameraSpaceXYPlane_def ballMagnitude_def ballPlaneX_def
      ballPlaneY_def Let_def)

lemma ballXZ_cases:
  "ballLocationInCameraSpaceXZPlane s p =
     (if ballMagnitude s p > 1
      then \<lparr>vx = ballPlaneX s p * (1 / sqrt (ballMagnitude s p)), vy = 0,
            vz = ballPlaneY s p * (1 / sqrt (ballMagnitude s p))\<rparr>
      else \<lparr>vx = ballPlaneX s p, vy = - sqrt (1 - ballMagnitude s p), vz = ballPlaneY s p\<rparr>)"
  by (simp add: ballLocationInCameraSpaceXZPlane_def ballMagnitude_def ballPlaneX_def
      ballPlaneY_def Let_def)

lemma ballXY_unit: "lengthV (ballLocationInCameraSpaceXYPlane s p) = 1"
proof (cases "ballMagnitude s p > 1")
  case True
  then show ?thesis
    using rescaled_unit [of "ballPlaneX s p" "ballPlaneY s p"]
    by (simp add: ballXY_cases lengthV_def ballMagnitude_def)
next
  case False
  then show ?thesis
    using on_sphere_unit [of "ballPlaneX s p" "ballPlaneY s p"]
    by (simp add: ballXY_cases lengthV_def ballMagnitude_def)
qed

lemma ballXZ_unit: "lengthV (ballLocationInCameraSpaceXZPlane s p) = 1"
proof (cases "ballMagnitude s p > 1")
  case True
  then show ?thesis
    using rescaled_unit [of "ballPlaneX s p" "ballPlaneY s p"]
    by (simp add: ballXZ_cases lengthV_def ballMagnitude_def)
next
  case False
  then show ?thesis
    using on_sphere_unit [of "ballPlaneX s p" "ballPlaneY s p"]
    by (simp add: ballXZ_cases lengthV_def ballMagnitude_def algebra_simps)
qed

lemma idleController_fields:
  "viewBounds idleController = \<lparr>width = 800, height = 600\<rparr>"
  "ballCenter idleController = \<lparr>px = 0, py = 0\<rparr>"
  "ballRadius idleController = 1"
  by (simp_all add: idleController_def identityQuaternion_def constructor_def)


text \<open>
  Claim C1. With positive view bounds and the constructor's ball centre and radius, both
  ball projections return a vector of length 1 for every screen point: where the in-plane
  squared magnitude \<open>m\<close> exceeds 1 the two in-plane components are rescaled by
  \<open>1 / sqrt m\<close> and the third component is 0, otherwise the third component is
  \<open>sqrt (1 - m)\<close> in the XY variant and \<open>- sqrt (1 - m)\<close> in the XZ variant.
\<close>

theorem ball_projection_unit_length:
  assumes "0 < width (viewBounds s)" and "0 < height (viewBounds s)"
    and "ballCenter s = \<lparr>px = 0, py = 0\<rparr>" and "ballRadius s = 1"
  shows "lengthV (ballLocationInCameraSpaceXYPlane s p) = 1
       \<and> lengthV (ballLocationInCameraSpaceXZPlane s p) = 1
       \<and> (ballMagnitude s p > 1 \<longrightarrow>
            ballLocationInCameraSpaceXYPlane s p =
              \<lparr>vx = ballPlaneX s p * (1 / sqrt (ballMagnitude s p)),
               vy = ballPlaneY s p * (1 / sqrt (ballMagnitude s p)), vz = 0\<rparr>
          \<and> ballLocationInCameraSpaceXZPlane s p =
              \<lparr>vx = ballPlaneX s p * (1 / sqrt (ballMagnitude s p)), vy = 0,
               vz = ballPlaneY s p * (1 / sqrt (ballMagnitude s p))\<rparr>)
       \<and> (\<not> ballMagnitude s p > 1 \<longrightarrow>
            ballLocationInCameraSpaceXYPlane s p =
              \<lparr>vx = ballPlaneX s p, vy = ballPlaneY s p, vz = sqrt (1 - ballMagnitude s p)\<rparr>
          \<and> ballLocationInCameraSpaceXZPlane s p =
              \<lparr>vx = ballPlaneX s p, vy = - sqrt (1 - ballMagnitude s p), vz = ballPlaneY s p\<rparr>)"
proof (intro conjI impI)
  show "lengthV (ballLocationInCameraSpaceXYPlane s p) = 1" by (rule ballXY_unit)
  show "lengthV (ballLocationInCameraSpaceXZPlane s p) = 1" by (rule ballXZ_unit)
qed (simp_all add: ballXY_cases ballXZ_cases)


theorem ball_projection_unit_length_witness:
  "0 < width (viewBounds idleController) \<and> 0 < height (viewBounds idleController)
   \<and> ballCenter idleController = \<lparr>px = 0, py = 0\<rparr> \<and> ballRadius idleController = 1
   \<and> ballMagnitude idleController \<lparr>px = 800, py = 0\<rparr> > 1
   \<and> ballLocationInCameraSpaceXYPlane idleController \<lparr>px = 800, py = 0\<rparr>
        = \<lparr>vx = 4 / 5, vy = 3 / 5, vz = 0\<rparr>
   \<and> ballLocationInCameraSpaceXZPlane idleController \<lparr>px = 800, py = 0\<rparr>
        = \<lparr>vx = 4 / 5, vy = 0, vz = 3 / 5\<rparr>
   \<and> lengthV (ballLocationInCameraSpaceXYPlane idleController \<lparr>px = 800, py = 0\<rparr>) = 1
   \<and> lengthV (ballLocationInCameraSpaceXZPlane idleController \<lparr>px = 800, py = 0\<rparr>) = 1
   \<and> \<not> ballMagnitude idleController \<lparr>px = 400, py = 300\<rparr> > 1
   \<and> ballLocationInCameraSpaceXYPlane idleController \<lparr>px = 400, py = 300\<rparr>
        = \<lparr>vx = 0, vy = 0, vz = 1\<rparr>
   \<and> ballLocationInCameraSpaceXZPlane idleController \<lparr>px = 400, py = 300\<rparr>
        = \<lparr>vx = 0, vy = - 1, vz = 0\<rparr>
   \<and> lengthV (ballLocationInCameraSpaceXYPlane idleController \<lparr>px = 400, py = 300\<rparr>) = 1
   \<and> lengthV (ballLocationInCameraSpaceXZPlane idleController \<lparr>px = 400, py = 300\<rparr>) = 1"
proof -
  have m1: "ballMagnitude idleController \<lparr>px = 800, py = 0\<rparr> = 25 / 16"
    and x1: "ballPlaneX idleController \<lparr>px = 800, py = 0\<rparr> = 1"
    and y1: "ballPlaneY idleController \<lparr>px = 800, py = 0\<rparr> = 3 / 4"
    by (simp_all add: idleController_fields ballMagnitude_def ballPlaneX_def ballPlaneY_def
        locationInBallCoordinates_def Let_def)
  have m2: "ballMagnitude idleController \<lparr>px = 400, py = 300\<rparr> = 0"
    and x2: "ballPlaneX idleController \<lparr>px = 400, py = 300\<rparr> = 0"
    and y2: "ballPlaneY idleController \<lparr>px = 400, py = 300\<rparr> = 0"
    by (simp_all add: idleController_fields ballMagnitude_def ballPlaneX_def ballPlaneY_def
        locationInBallCoordinates_def Let_def)
  have sq: "sqrt (25 / 16) = 5 / 4"
    by (rule real_sqrt_unique) (simp_all add: power2_eq_square)
  show ?thesis
    using ball_projection_unit_length [of idleController "\<lparr>px = 800, py = 0\<rparr>"]
      ball_projection_unit_length [of idleController "\<lparr>px = 400, py = 300\<rparr>"]
    by (simp add: idleController_fields m1 x1 y1 m2 x2 y2 sq lengthV_def)
qed

section \<open>Dragging\<close>

lemma ballXY_cong:
  assumes "viewBounds s = viewBounds s'" and "ballCenter s = ballCenter s'"
    and "ballRadius s = ballRadius s'"
  shows "ballLocationInCameraSpaceXYPlane s p = ballLocationInCameraSpaceXYPlane s' p"
  using assms
  by (simp add: ballLocationInCameraSpaceXYPlane_def locationInBallCoordinates_def)

lemma ballXY_800_600:
  assumes "viewBounds s = \<lparr>width = 800, height = 600\<rparr>"
    and "ballCenter s = \<lparr>px = 0, py = 0\<rparr>" and "ballRadius s = 1"
  shows "ballLocationInCameraSpaceXYPlane s \<lparr>px = 400, py = 300\<rparr>
           = \<lparr>vx = 0, vy = 0, vz = 1\<rparr>"
    and "ballLocationInCameraSpaceXYPlane s \<lparr>px = 800, py = 300\<rparr>
           = \<lparr>vx = 1, vy = 0, vz = 0\<rparr>"
    and "ballLocationInCameraSpaceXYPlane s nearCentre
           = \<lparr>vx = 0.00005, vy = 0, vz = sqrt (1 - 0.00005 * 0.00005)\<rparr>"
  using assms
  by (simp_all add: ballLocationInCameraSpaceXYPlane_def locationInBallCoordinates_def Let_def
      nearCentre_def)

lemma idleController_more_fields:
  "rotationTimer idleController = None" "intervals idleController = []"
  "nextIntervalId idleController = 1" "isDragging idleController = False"
  "quaternion idleController = identityQuaternion"
  "quaternionTouchDown idleController = identityQuaternion"
  "modelQuaternion idleController = identityQuaternion"
  "axisOfRotation idleController = \<lparr>vx = 0, vy = 0, vz = 0\<rparr>"
  "startVector idleController = \<lparr>vx = 0, vy = 0, vz = 0\<rparr>"
  by (simp_all add: idleController_def constructor_def)

lemma draggingController_eq:
  "draggingController =
     idleController\<lparr>isDragging := True, startVector := \<lparr>vx = 0, vy = 0, vz = 1\<rparr>\<rparr>"
proof -
  have "rotationTimer idleController = None"
    by (simp add: idleController_def constructor_def)
  then show ?thesis
    by (simp add: draggingController_def beginDrag_def Let_def ballXY_800_600 idleController_fields)
qed

lemma draggingController_fields:
  "viewBounds draggingController = \<lparr>width = 800, height = 600\<rparr>"
  "ballCenter draggingController = \<lparr>px = 0, py = 0\<rparr>"
  "ballRadius draggingController = 1"
  "startVector draggingController = \<lparr>vx = 0, vy = 0, vz = 1\<rparr>"
  "axisOfRotation draggingController = \<lparr>vx = 0, vy = 0, vz = 0\<rparr>"
  "quaternionTouchDown draggingController = identityQuaternion"
  "quaternion draggingController = identityQuaternion"
  "modelQuaternion draggingController = identityQuaternion"
  "onRender draggingController = False"
  "renderCalls draggingController = 0"
  "intervals draggingController = []"
  "nextIntervalId draggingController = 1"
  "rotationTimer draggingController = None"
  by (simp_all add: draggingController_eq idleController_def constructor_def)

lemma valid_examples:
  "validGeometry idleController" "validGeometry draggingController"
  by (simp_all add: validGeometry_def idleController_fields draggingController_fields)

lemma drag_points:
  "ballLocationInCameraSpaceXYPlane draggingController \<lparr>px = 400, py = 300\<rparr>
     = \<lparr>vx = 0, vy = 0, vz = 1\<rparr>"
  "ballLocationInCameraSpaceXYPlane draggingController \<lparr>px = 800, py = 300\<rparr>
     = \<lparr>vx = 1, vy = 0, vz = 0\<rparr>"
  "ballLocationInCameraSpaceXYPlane draggingController nearCentre
     = \<lparr>vx = 0.00005, vy = 0, vz = sqrt (1 - 0.00005 * 0.00005)\<rparr>"
  by (simp_all add: ballXY_800_600 draggingController_fields)

lemma drag_right_cross:
  "crossVectors (startVector draggingController)
     (ballLocationInCameraSpaceXYPlane draggingController \<lparr>px = 800, py = 300\<rparr>)
     = \<lparr>vx = 0, vy = 1, vz = 0\<rparr>"
  "dot (startVector draggingController)
     (ballLocationInCameraSpaceXYPlane draggingController \<lparr>px = 800, py = 300\<rparr>) = 0"
  by (simp_all add: ballXY_800_600 draggingController_fields crossVectors_def dot_def)

lemma triggerRender_frame:
  "quaternion (triggerRender s) = quaternion s"
  "modelQuaternion (triggerRender s) = modelQuaternion s"
  "quaternionTouchDown (triggerRender s) = quaternionTouchDown s"
  by (simp_all add: triggerRender_def)

lemma updateDrag_skipped:
  assumes "lengthV (crossVectors (startVector s) (ballLocationInCameraSpaceXYPlane s p)) < 0.0001"
  shows "updateDrag p s =
           s\<lparr>angleOfRotation := angleBetween (startVector s) (ballLocationInCameraSpaceXYPlane s p),
             axisOfRotation := crossVectors (startVector s) (ballLocationInCameraSpaceXYPlane s p)\<rparr>"
  using assms by (simp add: updateDrag_def Let_def)

lemma updateDrag_applied:
  assumes "\<not> lengthV (crossVectors (startVector s) (ballLocationInCameraSpaceXYPlane s p)) < 0.0001"
  shows "updateDrag p s =
           triggerRender (s\<lparr>angleOfRotation := angleBetween (startVector s) (ballLocationInCameraSpaceXYPlane s p),
             axisOfRotation := normalizeV (crossVectors (startVector s) (ballLocationInCameraSpaceXYPlane s p)),
             quaternion := multiplyQuaternions
                (setFromAxisAngle (normalizeV (crossVectors (startVector s) (ballLocationInCameraSpaceXYPlane s p)))
                   (angleBetween (startVector s) (ballLocationInCameraSpaceXYPlane s p)))
                (quaternionTouchDown s),
             modelQuaternion := multiplyQuaternions
                (setFromAxisAngle (normalizeV (crossVectors (startVector s) (ballLocationInCameraSpaceXYPlane s p)))
                   (angleBetween (startVector s) (ballLocationInCameraSpaceXYPlane s p)))
                (quaternionTouchDown s)\<rparr>)"
  using assms by (simp add: updateDrag_def Let_def)

lemma updateDrag_frame:
  "startVector (updateDrag p s) = startVector s"
  "viewBounds (updateDrag p s) = viewBounds s"
  "ballCenter (updateDrag p s) = ballCenter s"
  "ballRadius (updateDrag p s) = ballRadius s"
  "quaternionTouchDown (updateDrag p s) = quaternionTouchDown s"
  "isDragging (updateDrag p s) = isDragging s"
  "rotationTimer (updateDrag p s) = rotationTimer s"
  "intervals (updateDrag p s) = intervals s"
  by (simp_all add: updateDrag_def Let_def triggerRender_def)

lemma ballXY_updateDrag:
  "ballLocationInCameraSpaceXYPlane (updateDrag q s) p = ballLocationInCameraSpaceXYPlane s p"
  by (rule ballXY_cong) (simp_all add: updateDrag_frame)

lemma cross_self_length: "lengthV (crossVectors v v) = 0"
  by (simp add: lengthV_def crossVectors_def)

lemma cross_zero_length: "lengthV (crossVectors \<lparr>vx = 0, vy = 0, vz = 0\<rparr> v) = 0"
  by (simp add: lengthV_def crossVectors_def)

lemma length_small: "lengthV \<lparr>vx = 0, vy = 0.00005, vz = 0\<rparr> < 0.0001"
proof -
  have "sqrt (1 / 400000000) = 1 / 20000"
    by (rule real_sqrt_unique) (simp_all add: power2_eq_square)
  then show ?thesis by (simp add: lengthV_def)
qed

lemma drag_quarter_turn:
  "multiplyQuaternions (setFromAxisAngle (normalizeV \<lparr>vx = 0, vy = 1, vz = 0\<rparr>) (pi / 2))
     identityQuaternion = \<lparr>qx = 0, qy = sqrt 2 / 2, qz = 0, qw = sqrt 2 / 2\<rparr>"
proof -
  have "pi / 2 / 2 = pi / 4" by simp
  then show ?thesis
    by (simp add: multiplyQuaternions_def setFromAxisAngle_def normalizeV_def lengthV_def
        multiplyScalar_def identityQuaternion_def Let_def sin_45 cos_45)
qed

lemma updateDrag_same_vector:
  assumes "ballLocationInCameraSpaceXYPlane s p = startVector s"
  shows "modelQuaternion (updateDrag p s) = modelQuaternion s"
    and "quaternion (updateDrag p s) = quaternion s"
    and "renderCalls (updateDrag p s) = renderCalls s"
proof -
  have "lengthV (crossVectors (startVector s) (ballLocationInCameraSpaceXYPlane s p)) < 0.0001"
    by (simp add: assms cross_self_length)
  then show "modelQuaternion (updateDrag p s) = modelQuaternion s"
    and "quaternion (updateDrag p s) = quaternion s"
    and "renderCalls (updateDrag p s) = renderCalls s"
    by (simp_all add: updateDrag_skipped)
qed

lemma beginDrag_frame:
  "viewBounds (beginDrag p s) = viewBounds s"
  "ballCenter (beginDrag p s) = ballCenter s"
  "ballRadius (beginDrag p s) = ballRadius s"
  "modelQuaternion (beginDrag p s) = modelQuaternion s"
  "quaternion (beginDrag p s) = quaternion s"
  "quaternionTouchDown (beginDrag p s) = quaternionTouchDown s"
  by (simp_all add: beginDrag_def Let_def clearInterval_def split: option.split)

lemma beginDrag_startVector:
  "startVector (beginDrag p s) = ballLocationInCameraSpaceXYPlane (beginDrag p s) p"
proof -
  have "ballLocationInCameraSpaceXYPlane (beginDrag p s) p = ballLocationInCameraSpaceXYPlane s p"
    by (rule ballXY_cong) (simp_all add: beginDrag_frame)
  moreover have "startVector (beginDrag p s) = ballLocationInCameraSpaceXYPlane s p"
    by (simp add: beginDrag_def Let_def clearInterval_def
        ballXY_cong [of "s\<lparr>isDragging := True\<rparr>" s]
        ballXY_cong [of "s\<lparr>intervals := xs, rotationTimer := None, isDragging := True\<rparr>" s for xs]
        split: option.split)
  ultimately show ?thesis by simp
qed

lemma fold_updateDrag_frame:
  "startVector (fold updateDrag ps s) = startVector s"
  "viewBounds (fold updateDrag ps s) = viewBounds s"
  "ballCenter (fold updateDrag ps s) = ballCenter s"
  "ballRadius (fold updateDrag ps s) = ballRadius s"
  by (induction ps arbitrary: s) (simp_all add: updateDrag_frame)

text \<open>
  Claim C4, as amended. When the cross product of the stored start vector and the projected
  end vector is shorter than the threshold 0.0001, \<open>updateDrag\<close> applies no rotation:
  the current orientation, the drag-start snapshot, the target's orientation and every
  other field of the controller except the two working fields \<open>angleOfRotation\<close> and
  \<open>axisOfRotation\<close> are as before the call, and the render callback is not invoked.
\<close>

theorem updateDrag_degenerate_frame:
  assumes "validGeometry s"
    and "lengthV (crossVectors (startVector s) (ballLocationInCameraSpaceXYPlane s p)) < 0.0001"
  shows "(updateDrag p s)\<lparr>angleOfRotation := a, axisOfRotation := x\<rparr>
           = s\<lparr>angleOfRotation := a, axisOfRotation := x\<rparr>
       \<and> quaternion (updateDrag p s) = quaternion s
       \<and> quaternionTouchDown (updateDrag p s) = quaternionTouchDown s
       \<and> modelQuaternion (updateDrag p s) = modelQuaternion s
       \<and> renderCalls (updateDrag p s) = renderCalls s"
  by (simp add: updateDrag_skipped [OF assms(2)])

theorem updateDrag_degenerate_frame_witness:
  "validGeometry draggingController
   \<and> lengthV (crossVectors (startVector draggingController)
       (ballLocationInCameraSpaceXYPlane draggingController nearCentre)) < 0.0001
   \<and> quaternion (updateDrag nearCentre draggingController) = identityQuaternion
   \<and> quaternionTouchDown (updateDrag nearCentre draggingController) = identityQuaternion
   \<and> modelQuaternion (updateDrag nearCentre draggingController) = identityQuaternion
   \<and> renderCalls (updateDrag nearCentre draggingController) = 0"
proof -
  have c: "crossVectors (startVector draggingController)
       (ballLocationInCameraSpaceXYPlane draggingController nearCentre)
       = \<lparr>vx = 0, vy = 0.00005, vz = 0\<rparr>"
    by (simp add: ballXY_800_600 draggingController_fields crossVectors_def)
  have l: "lengthV \<lparr>vx = 0, vy = 0.00005, vz = 0\<rparr> < 0.0001"
    by (rule length_small)
  have h: "lengthV (crossVectors (startVector draggingController)
       (ballLocationInCameraSpaceXYPlane draggingController nearCentre)) < 0.0001"
    using l by (simp add: c)
  have r: "renderCalls draggingController = 0"
    by (simp add: draggingController_eq idleController_def constructor_def)
  show ?thesis
    using valid_examples(2) h updateDrag_degenerate_frame [OF valid_examples(2) h]
    by (simp add: draggingController_fields r)
qed

text \<open>
  Claim C4 as stated fails: a skipped update has already overwritten
  \<open>axisOfRotation\<close> with the cross product, which is not normalised. After a drag
  begins at the centre, an update 0.02 pixels to the right is skipped and leaves the axis
  \<open>(0, 0.00005, 0)\<close> where it was \<open>(0, 0, 0)\<close>.
\<close>

theorem updateDrag_degenerate_counterexample:
  "lengthV (crossVectors (startVector draggingController)
       (ballLocationInCameraSpaceXYPlane draggingController nearCentre)) < 0.0001
   \<and> axisOfRotation draggingController = \<lparr>vx = 0, vy = 0, vz = 0\<rparr>
   \<and> axisOfRotation (updateDrag nearCentre draggingController)
        = \<lparr>vx = 0, vy = 0.00005, vz = 0\<rparr>
   \<and> updateDrag nearCentre draggingController \<noteq> draggingController"
proof -
  have c: "crossVectors (startVector draggingController)
       (ballLocationInCameraSpaceXYPlane draggingController nearCentre)
       = \<lparr>vx = 0, vy = 0.00005, vz = 0\<rparr>"
    by (simp add: ballXY_800_600 draggingController_fields crossVectors_def)
  have l: "lengthV \<lparr>vx = 0, vy = 0.00005, vz = 0\<rparr> < 0.0001"
    by (rule length_small)
  have a: "axisOfRotation (updateDrag nearCentre draggingController)
        = \<lparr>vx = 0, vy = 0.00005, vz = 0\<rparr>"
    using l by (simp add: updateDrag_def Let_def c)
  have "axisOfRotation (updateDrag nearCentre draggingController)
      \<noteq> axisOfRotation draggingController"
    by (simp add: a draggingController_fields)
  then have n: "updateDrag nearCentre draggingController \<noteq> draggingController"
    by auto
  have h: "lengthV (crossVectors (startVector draggingController)
       (ballLocationInCameraSpaceXYPlane draggingController nearCentre)) < 0.0001"
    using l by (simp add: c)
  show ?thesis
    using h a n draggingController_fields(5) by blast
qed

text \<open>
  Claim C5. When the cross product of the start vector and the end vector has length at
  least 0.0001, the new current orientation is the quaternion built from the normalised
  cross product and \<open>acos(clamp(dot(start, end), -1, 1))\<close>, multiplied from the
  left onto the drag-start snapshot; the target receives the same value; and a second
  \<open>updateDrag\<close> with the same screen point leaves the orientation of the first.
\<close>

theorem updateDrag_composes:
  assumes "validGeometry s"
    and "0.0001 \<le> lengthV (crossVectors (startVector s) (ballLocationInCameraSpaceXYPlane s p))"
  shows "quaternion (updateDrag p s) =
           multiplyQuaternions
             (setFromAxisAngle
                (normalizeV (crossVectors (startVector s) (ballLocationInCameraSpaceXYPlane s p)))
                (arccos (clamp (dot (startVector s) (ballLocationInCameraSpaceXYPlane s p)) (- 1) 1)))
             (quaternionTouchDown s)
       \<and> modelQuaternion (updateDrag p s) = quaternion (updateDrag p s)
       \<and> quaternion (updateDrag p (updateDrag p s)) = quaternion (updateDrag p s)
       \<and> modelQuaternion (updateDrag p (updateDrag p s)) = modelQuaternion (updateDrag p s)"
proof -
  let ?e = "ballLocationInCameraSpaceXYPlane s p"
  let ?q = "multiplyQuaternions
             (setFromAxisAngle (normalizeV (crossVectors (startVector s) ?e))
                (angleBetween (startVector s) ?e))
             (quaternionTouchDown s)"
  have n1: "\<not> lengthV (crossVectors (startVector s) ?e) < 0.0001"
    using assms(2) by simp
  have q1: "quaternion (updateDrag p s) = ?q" and m1: "modelQuaternion (updateDrag p s) = ?q"
    by (simp_all add: updateDrag_applied [OF n1] triggerRender_frame)
  have n2: "\<not> lengthV (crossVectors (startVector (updateDrag p s))
               (ballLocationInCameraSpaceXYPlane (updateDrag p s) p)) < 0.0001"
    using n1 by (simp add: updateDrag_frame ballXY_updateDrag)
  have q2: "quaternion (updateDrag p (updateDrag p s)) = ?q"
    and m2: "modelQuaternion (updateDrag p (updateDrag p s)) = ?q"
    by (simp_all add: updateDrag_applied [OF n2] triggerRender_frame updateDrag_frame
        ballXY_updateDrag)
  show ?thesis
    by (simp add: q1 m1 q2 m2 angleBetween_def clamp_def)
qed

theorem updateDrag_composes_witness:
  "validGeometry draggingController
   \<and> 0.0001 \<le> lengthV (crossVectors (startVector draggingController)
       (ballLocationInCameraSpaceXYPlane draggingController \<lparr>px = 800, py = 300\<rparr>))
   \<and> quaternion (updateDrag \<lparr>px = 800, py = 300\<rparr> draggingController)
        = \<lparr>qx = 0, qy = sqrt 2 / 2, qz = 0, qw = sqrt 2 / 2\<rparr>
   \<and> modelQuaternion (updateDrag \<lparr>px = 800, py = 300\<rparr> draggingController)
        = \<lparr>qx = 0, qy = sqrt 2 / 2, qz = 0, qw = sqrt 2 / 2\<rparr>
   \<and> quaternion (updateDrag \<lparr>px = 800, py = 300\<rparr>
         (updateDrag \<lparr>px = 800, py = 300\<rparr> draggingController))
        = \<lparr>qx = 0, qy = sqrt 2 / 2, qz = 0, qw = sqrt 2 / 2\<rparr>"
proof -
  have h: "0.0001 \<le> lengthV (crossVectors (startVector draggingController)
       (ballLocationInCameraSpaceXYPlane draggingController \<lparr>px = 800, py = 300\<rparr>))"
    by (simp add: drag_right_cross lengthV_def)
  show ?thesis
    using valid_examples(2) h updateDrag_composes [OF valid_examples(2) h]
    by (simp add: drag_points draggingController_fields crossVectors_def dot_def clamp_def
        drag_quarter_turn)
qed

text \<open>
  Claim C8, as amended. If \<open>updateDrag\<close> is called with a screen point that maps
  to the same ball vector as the point of \<open>beginDrag\<close>, the update is skipped and
  the target keeps the orientation it had before the call, whatever \<open>updateDrag\<close>
  calls came in between. Directly after \<open>beginDrag\<close> that is the target's
  orientation at drag start, which is also the snapshot whenever the snapshot agreed with
  the target when the drag began.
\<close>

theorem updateDrag_back_to_start:
  assumes "validGeometry s"
    and "ballLocationInCameraSpaceXYPlane (beginDrag p0 s) p
             = ballLocationInCameraSpaceXYPlane (beginDrag p0 s) p0"
  shows "modelQuaternion (updateDrag p (fold updateDrag ps (beginDrag p0 s)))
           = modelQuaternion (fold updateDrag ps (beginDrag p0 s))
       \<and> renderCalls (updateDrag p (fold updateDrag ps (beginDrag p0 s)))
           = renderCalls (fold updateDrag ps (beginDrag p0 s))
       \<and> modelQuaternion (updateDrag p (beginDrag p0 s)) = modelQuaternion s
       \<and> (quaternionTouchDown s = modelQuaternion s \<longrightarrow>
            modelQuaternion (updateDrag p (beginDrag p0 s)) = quaternionTouchDown (beginDrag p0 s))"
proof -
  let ?d = "beginDrag p0 s"
  let ?d' = "fold updateDrag ps ?d"
  have "ballLocationInCameraSpaceXYPlane ?d' p = ballLocationInCameraSpaceXYPlane ?d p"
    by (rule ballXY_cong) (simp_all add: fold_updateDrag_frame)
  then have same': "ballLocationInCameraSpaceXYPlane ?d' p = startVector ?d'"
    using assms(2) by (simp add: fold_updateDrag_frame beginDrag_startVector)
  have same: "ballLocationInCameraSpaceXYPlane ?d p = startVector ?d"
    using assms(2) by (simp add: beginDrag_startVector)
  show ?thesis
    using updateDrag_same_vector [OF same'] updateDrag_same_vector [OF same]
    by (simp add: beginDrag_frame)
qed

theorem updateDrag_back_to_start_witness:
  "validGeometry idleController
   \<and> ballLocationInCameraSpaceXYPlane (beginDrag \<lparr>px = 400, py = 300\<rparr> idleController)
       \<lparr>px = 400, py = 300\<rparr>
     = ballLocationInCameraSpaceXYPlane (beginDrag \<lparr>px = 400, py = 300\<rparr> idleController)
         \<lparr>px = 400, py = 300\<rparr>
   \<and> quaternionTouchDown idleController = modelQuaternion idleController
   \<and> modelQuaternion (updateDrag \<lparr>px = 400, py = 300\<rparr>
         (fold updateDrag [\<lparr>px = 800, py = 300\<rparr>]
           (beginDrag \<lparr>px = 400, py = 300\<rparr> idleController)))
       = \<lparr>qx = 0, qy = sqrt 2 / 2, qz = 0, qw = sqrt 2 / 2\<rparr>
   \<and> modelQuaternion (updateDrag \<lparr>px = 400, py = 300\<rparr>
         (beginDrag \<lparr>px = 400, py = 300\<rparr> idleController)) = identityQuaternion
   \<and> quaternionTouchDown (beginDrag \<lparr>px = 400, py = 300\<rparr> idleController) = identityQuaternion"
proof -
  let ?d1 = "updateDrag \<lparr>px = 800, py = 300\<rparr> draggingController"
  have n: "\<not> lengthV (crossVectors (startVector draggingController)
       (ballLocationInCameraSpaceXYPlane draggingController \<lparr>px = 800, py = 300\<rparr>)) < 0.0001"
    by (simp add: drag_points draggingController_fields crossVectors_def lengthV_def)
  have m1: "modelQuaternion ?d1 = \<lparr>qx = 0, qy = sqrt 2 / 2, qz = 0, qw = sqrt 2 / 2\<rparr>"
    by (simp add: updateDrag_applied [OF n] triggerRender_frame angleBetween_def)
      (simp add: drag_points draggingController_fields crossVectors_def dot_def drag_quarter_turn)
  have i: "quaternionTouchDown idleController = identityQuaternion"
      "modelQuaternion idleController = identityQuaternion"
    by (simp_all add: idleController_def constructor_def)
  show ?thesis
    using valid_examples(1)
      updateDrag_back_to_start [where s = idleController and ?p0.0 = "\<lparr>px = 400, py = 300\<rparr>"
        and p = "\<lparr>px = 400, py = 300\<rparr>" and ps = "[\<lparr>px = 800, py = 300\<rparr>]"] m1 i
    by (simp add: draggingController_def [symmetric] draggingController_fields)
qed

text \<open>
  Claim C8 as stated fails after an intervening update: begin at the centre, drag to the
  right edge (a quarter turn about the vertical axis), then drag back to the centre. The
  last update is skipped, so the target keeps the quarter turn instead of returning to the
  orientation at drag start.
\<close>

theorem updateDrag_back_to_start_counterexample:
  "ballLocationInCameraSpaceXYPlane (beginDrag \<lparr>px = 400, py = 300\<rparr> idleController)
       \<lparr>px = 400, py = 300\<rparr>
     = startVector (beginDrag \<lparr>px = 400, py = 300\<rparr> idleController)
   \<and> modelQuaternion (beginDrag \<lparr>px = 400, py = 300\<rparr> idleController) = identityQuaternion
   \<and> quaternionTouchDown (beginDrag \<lparr>px = 400, py = 300\<rparr> idleController) = identityQuaternion
   \<and> modelQuaternion (updateDrag \<lparr>px = 400, py = 300\<rparr>
         (updateDrag \<lparr>px = 800, py = 300\<rparr>
           (beginDrag \<lparr>px = 400, py = 300\<rparr> idleController)))
       = \<lparr>qx = 0, qy = sqrt 2 / 2, qz = 0, qw = sqrt 2 / 2\<rparr>
   \<and> modelQuaternion (updateDrag \<lparr>px = 400, py = 300\<rparr>
         (updateDrag \<lparr>px = 800, py = 300\<rparr>
           (beginDrag \<lparr>px = 400, py = 300\<rparr> idleController)))
       \<noteq> identityQuaternion"
proof -
  let ?d1 = "updateDrag \<lparr>px = 800, py = 300\<rparr> draggingController"
  have n: "\<not> lengthV (crossVectors (startVector draggingController)
       (ballLocationInCameraSpaceXYPlane draggingController \<lparr>px = 800, py = 300\<rparr>)) < 0.0001"
    by (simp add: drag_points draggingController_fields crossVectors_def lengthV_def)
  have m1: "modelQuaternion ?d1 = \<lparr>qx = 0, qy = sqrt 2 / 2, qz = 0, qw = sqrt 2 / 2\<rparr>"
    by (simp add: updateDrag_applied [OF n] triggerRender_frame angleBetween_def)
      (simp add: drag_points draggingController_fields crossVectors_def dot_def drag_quarter_turn)
  have "ballLocationInCameraSpaceXYPlane ?d1 \<lparr>px = 400, py = 300\<rparr> = startVector ?d1"
    by (simp add: ballXY_updateDrag updateDrag_frame drag_points draggingController_fields)
  then have m2: "modelQuaternion (updateDrag \<lparr>px = 400, py = 300\<rparr> ?d1) = modelQuaternion ?d1"
    by (rule updateDrag_same_vector)
  have ne: "\<lparr>qx = 0, qy = sqrt 2 / 2, qz = 0, qw = sqrt 2 / 2\<rparr> \<noteq> identityQuaternion"
    by (simp add: identityQuaternion_def)
  show ?thesis
    using m1 m2 ne
    by (simp add: draggingController_def [symmetric] drag_points draggingController_fields)
qed

text \<open>
  Claim C10. While the stored start vector is the zero vector, as it is after the
  constructor and after \<open>stopDrag\<close>, the cross product with any end vector has
  length 0, so \<open>updateDrag\<close> is skipped: the target's orientation and the current
  orientation are unchanged and the render callback is not invoked.
\<close>

theorem updateDrag_zero_start_skipped:
  assumes "validGeometry s"
    and "startVector s = \<lparr>vx = 0, vy = 0, vz = 0\<rparr>"
  shows "lengthV (crossVectors (startVector s) (ballLocationInCameraSpaceXYPlane s p)) = 0
       \<and> modelQuaternion (updateDrag p s) = modelQuaternion s
       \<and> quaternion (updateDrag p s) = quaternion s
       \<and> renderCalls (updateDrag p s) = renderCalls s
       \<and> startVector (constructor mq rect) = \<lparr>vx = 0, vy = 0, vz = 0\<rparr>
       \<and> startVector (stopDrag s') = \<lparr>vx = 0, vy = 0, vz = 0\<rparr>"
proof -
  have z: "lengthV (crossVectors (startVector s) (ballLocationInCameraSpaceXYPlane s p)) = 0"
    by (simp add: assms(2) cross_zero_length)
  then have "lengthV (crossVectors (startVector s) (ballLocationInCameraSpaceXYPlane s p)) < 0.0001"
    by simp
  then have "modelQuaternion (updateDrag p s) = modelQuaternion s"
    and "quaternion (updateDrag p s) = quaternion s"
    and "renderCalls (updateDrag p s) = renderCalls s"
    by (simp_all add: updateDrag_skipped)
  moreover have "startVector (stopDrag s') = \<lparr>vx = 0, vy = 0, vz = 0\<rparr>"
    by (simp add: stopDrag_def Let_def)
  moreover have "startVector (constructor mq rect) = \<lparr>vx = 0, vy = 0, vz = 0\<rparr>"
    by (simp add: constructor_def)
  ultimately show ?thesis using z by simp
qed

theorem updateDrag_zero_start_skipped_witness:
  "validGeometry idleController
   \<and> startVector idleController = \<lparr>vx = 0, vy = 0, vz = 0\<rparr>
   \<and> modelQuaternion (updateDrag \<lparr>px = 800, py = 300\<rparr> idleController) = identityQuaternion
   \<and> renderCalls (updateDrag \<lparr>px = 800, py = 300\<rparr> idleController) = 0"
proof -
  have h: "startVector idleController = \<lparr>vx = 0, vy = 0, vz = 0\<rparr>"
    by (simp add: idleController_def constructor_def)
  show ?thesis
    using valid_examples(1) h
      updateDrag_zero_start_skipped [OF valid_examples(1) h, of "\<lparr>px = 800, py = 300\<rparr>"]
    by (simp add: idleController_def constructor_def)
qed

section \<open>Momentum\<close>

lemma endDrag_flick:
  assumes "viewBounds s = \<lparr>width = 800, height = 600\<rparr>"
    and "ballCenter s = \<lparr>px = 0, py = 0\<rparr>" and "ballRadius s = 1"
  shows "endDrag flick centre s =
           s\<lparr>isDragging := False, quaternionTouchDown := quaternion s,
             intervals := intervals s @ [(nextIntervalId s, momentumPackage)],
             nextIntervalId := Suc (nextIntervalId s),
             rotationTimer := Some (nextIntervalId s)\<rparr>"
proof -
  let ?s2 = "s\<lparr>isDragging := False, quaternionTouchDown := quaternion s\<rparr>"
  have big: "\<not> 500 * pi < 1" using pi_ge_two by linarith
  have a: "ballLocationInCameraSpaceXYPlane ?s2 \<lparr>px = 400, py = 300\<rparr> = \<lparr>vx = 0, vy = 0, vz = 1\<rparr>"
    and b: "ballLocationInCameraSpaceXYPlane ?s2 \<lparr>px = 800, py = 300\<rparr> = \<lparr>vx = 1, vy = 0, vz = 0\<rparr>"
    using assms by (simp_all add: ballXY_800_600)
  show ?thesis
    by (simp add: endDrag_def Let_def flick_def centre_def kRotationRate_def a b
        angleBetween_def dot_def setInterval_def big momentumPackage_def)
qed

lemma momentumController_eq:
  "momentumController =
     idleController\<lparr>isDragging := False, quaternionTouchDown := identityQuaternion,
       intervals := [(1, momentumPackage)], nextIntervalId := 2, rotationTimer := Some 1\<rparr>"
  by (simp add: momentumController_def endDrag_flick idleController_fields
      idleController_more_fields)

lemma momentumController_timer: "rotationTimer momentumController = Some 1"
  by (simp add: momentumController_eq)

lemma handler_running:
  assumes "\<not> radians pkg < 0"
  shows "radians (fst (rotationTimerHandler (pkg, s))) = radians pkg - kRotationDecelerationRate * radiansBegin pkg"
    and "radiansBegin (fst (rotationTimerHandler (pkg, s))) = radiansBegin pkg"
    and "rotationTimer (snd (rotationTimerHandler (pkg, s))) = rotationTimer s"
    and "intervals (snd (rotationTimerHandler (pkg, s))) = intervals s"
  using assms by (simp_all add: rotationTimerHandler_def Let_def triggerRender_def)

lemma ticks_running:
  assumes "0 < R" and "radiansBegin pkg = R" and "radians pkg = R" and "n \<le> 61"
  shows "radians (fst (ticks n (pkg, s))) = R - real n * (kRotationDecelerationRate * R)
       \<and> radiansBegin (fst (ticks n (pkg, s))) = R
       \<and> rotationTimer (snd (ticks n (pkg, s))) = rotationTimer s
       \<and> intervals (snd (ticks n (pkg, s))) = intervals s"
  using assms(4)
proof (induction n)
  case 0
  then show ?case using assms by simp
next
  case (Suc n)
  then have IH: "radians (fst (ticks n (pkg, s))) = R - real n * (kRotationDecelerationRate * R)"
      "radiansBegin (fst (ticks n (pkg, s))) = R"
      "rotationTimer (snd (ticks n (pkg, s))) = rotationTimer s"
      "intervals (snd (ticks n (pkg, s))) = intervals s"
    by simp_all
  from Suc.prems have "real n \<le> 60" by simp
  then have "real n * (R / 60) \<le> 60 * (R / 60)"
    using assms(1) by (intro mult_right_mono) simp_all
  then have nonneg: "\<not> radians (fst (ticks n (pkg, s))) < 0"
    by (simp add: IH kRotationDecelerationRate_def)
  obtain p' s' where ps: "ticks n (pkg, s) = (p', s')" by (cases "ticks n (pkg, s)")
  show ?case
    using IH nonneg handler_running [of p' s'] 
    by (simp add: ps algebra_simps)
qed

lemma rotationTimerHandlerFl_exact: "rotationTimerHandlerFl (\<lambda>x. x) = rotationTimerHandler"
  by (rule ext) (simp add: rotationTimerHandlerFl_def rotationTimerHandler_def)

lemma ticksFl_exact: "ticksFl (\<lambda>x. x) n ps = ticks n ps"
  by (induction n) (simp_all add: rotationTimerHandlerFl_exact)

lemma handlerFl_running:
  assumes "\<not> radians pkg < 0"
  shows "radians (fst (rotationTimerHandlerFl fl (pkg, s)))
           = fl (radians pkg - fl (fl kRotationDecelerationRate * radiansBegin pkg))"
    and "radiansBegin (fst (rotationTimerHandlerFl fl (pkg, s))) = radiansBegin pkg"
    and "rotationTimer (snd (rotationTimerHandlerFl fl (pkg, s))) = rotationTimer s"
    and "intervals (snd (rotationTimerHandlerFl fl (pkg, s))) = intervals s"
  using assms by (simp_all add: rotationTimerHandlerFl_def Let_def triggerRender_def)

lemma handlerFl_terminal:
  assumes "radians pkg < 0"
  shows "fst (rotationTimerHandlerFl fl (pkg, s)) = pkg"
    and "rotationTimer (snd (rotationTimerHandlerFl fl (pkg, s))) = None"
    and "intervals (snd (rotationTimerHandlerFl fl (pkg, s))) =
           (case rotationTimer s of None \<Rightarrow> intervals s
            | Some t \<Rightarrow> filter (\<lambda>e. fst e \<noteq> t) (intervals s))"
  using assms
  by (simp_all add: rotationTimerHandlerFl_def Let_def clearInterval_def split: option.split)

lemma fl_step_bounds:
  fixes fl :: "real \<Rightarrow> real" and u R :: real
  assumes model: "\<forall>x. \<bar>fl x - x\<bar> \<le> u * \<bar>x\<bar>"
    and u: "0 \<le> u" "u \<le> 1 / 100000" and R: "0 < R"
  shows "R / 60 - u * R / 20 \<le> fl (fl kRotationDecelerationRate * R)"
    and "fl (fl kRotationDecelerationRate * R) \<le> R / 60 + u * R / 20"
proof -
  define k where "k = fl kRotationDecelerationRate"
  define e where "e = u * R"
  have e: "0 \<le> e" "e \<le> R / 100000"
    using u R by (simp_all add: e_def mult_right_mono)
  have "\<bar>fl kRotationDecelerationRate - kRotationDecelerationRate\<bar>
      \<le> u * \<bar>kRotationDecelerationRate\<bar>"
    using model by blast
  then have ab: "\<bar>k - 1 / 60\<bar> \<le> u / 60"
    by (simp add: k_def kRotationDecelerationRate_def)
  have k: "(1 - u) / 60 \<le> k" "k \<le> (1 + u) / 60"
    using abs_le_D1 [OF ab] abs_le_D2 [OF ab]
    by (simp_all add: diff_divide_distrib add_divide_distrib)
  have kpos: "0 \<le> k" using k(1) u by simp
  have kR: "R / 60 - e / 60 \<le> k * R" "k * R \<le> R / 60 + e / 60"
  proof -
    have "(1 - u) / 60 * R \<le> k * R" using k(1) R by (intro mult_right_mono) simp_all
    then show "R / 60 - e / 60 \<le> k * R" by (simp add: e_def algebra_simps)
    have "k * R \<le> (1 + u) / 60 * R" using k(2) R by (intro mult_right_mono) simp_all
    then show "k * R \<le> R / 60 + e / 60" by (simp add: e_def algebra_simps)
  qed
  have kRpos: "0 \<le> k * R" using kpos R by simp
  have "u * (k * R) \<le> u * (R / 60 + e / 60)"
    using kR(2) u(1) by (rule mult_left_mono)
  also have "\<dots> = e / 60 + u * e / 60" by (simp add: e_def algebra_simps)
  also have "\<dots> \<le> e / 60 + e / 60"
  proof -
    have "u * e \<le> 1 * e" using u e(1) by (intro mult_right_mono) simp_all
    then have "u * e \<le> e" by simp
    then have "u * e / 60 \<le> e / 60" by (rule divide_right_mono) simp
    then show ?thesis by linarith
  qed
  finally have ue: "u * (k * R) \<le> e / 30" by simp
  have "\<bar>fl (k * R) - k * R\<bar> \<le> u * \<bar>k * R\<bar>" using model by blast
  then have ab2: "\<bar>fl (k * R) - k * R\<bar> \<le> e / 30" using ue kRpos by simp
  have "k * R - e / 30 \<le> fl (k * R)" "fl (k * R) \<le> k * R + e / 30"
    using abs_le_D1 [OF ab2] abs_le_D2 [OF ab2] by simp_all
  then show "R / 60 - u * R / 20 \<le> fl (fl kRotationDecelerationRate * R)"
    and "fl (fl kRotationDecelerationRate * R) \<le> R / 60 + u * R / 20"
    using kR unfolding k_def [symmetric] e_def [symmetric] by linarith+
qed

lemma fl_near:
  fixes fl :: "real \<Rightarrow> real" and u x b :: real
  assumes model: "\<forall>x. \<bar>fl x - x\<bar> \<le> u * \<bar>x\<bar>" and "0 \<le> u" and "\<bar>x\<bar> \<le> b"
  shows "x - u * b \<le> fl x" and "fl x \<le> x + u * b"
proof -
  have "\<bar>fl x - x\<bar> \<le> u * \<bar>x\<bar>" using model by blast
  also have "\<dots> \<le> u * b" using assms(2,3) by (rule mult_left_mono[rotated]) 
  finally have ab: "\<bar>fl x - x\<bar> \<le> u * b" .
  show "x - u * b \<le> fl x" and "fl x \<le> x + u * b"
    using abs_le_D1 [OF ab] abs_le_D2 [OF ab] by simp_all
qed

lemma fl_negative:
  fixes fl :: "real \<Rightarrow> real" and u x :: real
  assumes model: "\<forall>x. \<bar>fl x - x\<bar> \<le> u * \<bar>x\<bar>" and "u < 1" and "x < 0"
  shows "fl x < 0"
proof -
  have ab: "\<bar>fl x - x\<bar> \<le> u * \<bar>x\<bar>" using model by blast
  have "fl x \<le> x + u * (- x)" using abs_le_D1 [OF ab] assms(3) by simp
  moreover have "u * (- x) < 1 * (- x)" using assms(2,3) by (intro mult_strict_right_mono) simp_all
  ultimately show ?thesis by simp
qed

lemma ticksFl_running:
  fixes fl :: "real \<Rightarrow> real" and u R :: real
  assumes model: "\<forall>x. \<bar>fl x - x\<bar> \<le> u * \<bar>x\<bar>"
    and u: "0 \<le> u" "u \<le> 1 / 100000" and R: "0 < R"
    and pkg: "radiansBegin pkg = R" "radians pkg = R"
    and n: "n \<le> 59"
  shows "radiansBegin (fst (ticksFl fl n (pkg, s))) = R
       \<and> rotationTimer (snd (ticksFl fl n (pkg, s))) = rotationTimer s
       \<and> intervals (snd (ticksFl fl n (pkg, s))) = intervals s
       \<and> R - real n * fl (fl kRotationDecelerationRate * R) - real n * (u * R)
            \<le> radians (fst (ticksFl fl n (pkg, s)))
       \<and> radians (fst (ticksFl fl n (pkg, s)))
            \<le> R - real n * fl (fl kRotationDecelerationRate * R) + real n * (u * R)"
  using n
proof (induction n)
  case 0
  then show ?case using pkg by simp
next
  case (Suc n)
  define st where "st = fl (fl kRotationDecelerationRate * R)"
  define e where "e = u * R"
  define r where "r = radians (fst (ticksFl fl n (pkg, s)))"
  define N where "N = real n"
  have e: "0 \<le> e" "e \<le> R / 100000"
    using u R by (simp_all add: e_def mult_right_mono)
  have st: "R / 60 - e / 20 \<le> st" "st \<le> R / 60 + e / 20"
    using fl_step_bounds [OF model u R] by (simp_all add: st_def e_def)
  have N: "0 \<le> N" "N \<le> 58" using Suc.prems by (simp_all add: N_def)
  have IH: "radiansBegin (fst (ticksFl fl n (pkg, s))) = R"
      "rotationTimer (snd (ticksFl fl n (pkg, s))) = rotationTimer s"
      "intervals (snd (ticksFl fl n (pkg, s))) = intervals s"
      "R - N * st - N * e \<le> r" "r \<le> R - N * st + N * e"
    using Suc by (simp_all add: st_def e_def r_def N_def)
  have st0: "0 \<le> st" "e \<le> st" using st e R by linarith+
  have Nst: "N * st \<le> 58 * st" "0 \<le> N * st"
    using N st0 by (simp_all add: mult_right_mono)
  have Ne: "N * e \<le> 58 * e" "0 \<le> N * e" "N * e \<le> N * st"
    using N e st0 by (simp_all add: mult_right_mono mult_left_mono)
  have x0: "0 \<le> r - st" using IH(4) Nst Ne st e by linarith
  have xR: "r - st \<le> R" using IH(5) Nst Ne st0 by linarith
  have "\<bar>r - st\<bar> \<le> R" using x0 xR by simp
  then have near: "r - st - u * R \<le> fl (r - st)" "fl (r - st) \<le> r - st + u * R"
    using fl_near [OF model u(1)] by blast+
  have nonneg: "\<not> radians (fst (ticksFl fl n (pkg, s))) < 0"
    using x0 st0 by (simp add: r_def [symmetric])
  obtain p' s' where ps: "ticksFl fl n (pkg, s) = (p', s')" by (cases "ticksFl fl n (pkg, s)")
  have new: "radians (fst (ticksFl fl (Suc n) (pkg, s))) = fl (r - st)"
    using nonneg IH(1) handlerFl_running(1) [of p' fl s']
    by (simp add: ps r_def st_def)
  have keep: "radiansBegin (fst (ticksFl fl (Suc n) (pkg, s))) = R"
      "rotationTimer (snd (ticksFl fl (Suc n) (pkg, s))) = rotationTimer s"
      "intervals (snd (ticksFl fl (Suc n) (pkg, s))) = intervals s"
    using nonneg IH(1-3) handlerFl_running(2-4) [of p' fl s']
    by (simp_all add: ps)
  have S: "real (Suc n) * st = N * st + st" "real (Suc n) * e = N * e + e"
    by (simp_all add: N_def algebra_simps)
  have "R - real (Suc n) * st - real (Suc n) * e \<le> fl (r - st)"
    and "fl (r - st) \<le> R - real (Suc n) * st + real (Suc n) * e"
    using near IH(4,5) unfolding S e_def [symmetric] by linarith+
  then show ?case
    using keep new by (simp add: st_def e_def)
qed

lemma ticksFl_60:
  fixes fl :: "real \<Rightarrow> real" and u R :: real
  assumes model: "\<forall>x. \<bar>fl x - x\<bar> \<le> u * \<bar>x\<bar>"
    and u: "0 \<le> u" "u \<le> 1 / 100000" and R: "0 < R"
    and pkg: "radiansBegin pkg = R" "radians pkg = R"
  shows "radiansBegin (fst (ticksFl fl 60 (pkg, s))) = R"
    and "rotationTimer (snd (ticksFl fl 60 (pkg, s))) = rotationTimer s"
    and "intervals (snd (ticksFl fl 60 (pkg, s))) = intervals s"
    and "\<bar>radians (fst (ticksFl fl 60 (pkg, s)))\<bar> \<le> 63 * u * R"
    and "\<not> radians (fst (ticksFl fl 59 (pkg, s))) < 0"
    and "radians (fst (ticksFl fl 60 (pkg, s)))
           = fl (radians (fst (ticksFl fl 59 (pkg, s))) - fl (fl kRotationDecelerationRate * R))"
proof -
  define st where "st = fl (fl kRotationDecelerationRate * R)"
  define e where "e = u * R"
  define r where "r = radians (fst (ticksFl fl 59 (pkg, s)))"
  have e: "0 \<le> e" "e \<le> R / 100000"
    using u R by (simp_all add: e_def mult_right_mono)
  have st: "R / 60 - e / 20 \<le> st" "st \<le> R / 60 + e / 20"
    using fl_step_bounds [OF model u R] by (simp_all add: st_def e_def)
  have I: "radiansBegin (fst (ticksFl fl 59 (pkg, s))) = R"
      "rotationTimer (snd (ticksFl fl 59 (pkg, s))) = rotationTimer s"
      "intervals (snd (ticksFl fl 59 (pkg, s))) = intervals s"
      "R - 59 * st - 59 * e \<le> r" "r \<le> R - 59 * st + 59 * e"
    using ticksFl_running [OF model u R pkg, of 59 s] by (simp_all add: st_def e_def r_def)
  have nonneg: "\<not> r < 0" using I(4) st e by linarith
  show "\<not> radians (fst (ticksFl fl 59 (pkg, s))) < 0"
    using nonneg by (simp add: r_def)
  obtain p' s' where ps: "ticksFl fl 59 (pkg, s) = (p', s')" by (cases "ticksFl fl 59 (pkg, s)")
  have s60: "ticksFl fl 60 (pkg, s) = rotationTimerHandlerFl fl (p', s')"
    using ps by (simp add: eval_nat_numeral)
  have n': "\<not> radians p' < 0" using nonneg by (simp add: r_def ps)
  show new: "radians (fst (ticksFl fl 60 (pkg, s)))
           = fl (radians (fst (ticksFl fl 59 (pkg, s))) - fl (fl kRotationDecelerationRate * R))"
    using I(1) handlerFl_running(1) [OF n', of fl s'] by (simp add: s60 ps)
  show "radiansBegin (fst (ticksFl fl 60 (pkg, s))) = R"
    and "rotationTimer (snd (ticksFl fl 60 (pkg, s))) = rotationTimer s"
    and "intervals (snd (ticksFl fl 60 (pkg, s))) = intervals s"
    using I(1-3) handlerFl_running(2-4) [OF n', of fl s'] by (simp_all add: s60 ps)
  have x: "\<bar>r - st\<bar> \<le> 62 * e" using I(4,5) st by linarith
  have near: "r - st - u * (62 * e) \<le> fl (r - st)" "fl (r - st) \<le> r - st + u * (62 * e)"
    using fl_near [OF model u(1) x] by blast+
  have "u * (62 * e) \<le> (1 / 100000) * (62 * e)"
    using u(2) e(1) by (intro mult_right_mono) simp_all
  moreover have "(1 / 100000) * (62 * e) \<le> e" using e(1) by simp
  ultimately have "u * (62 * e) \<le> e" by (rule order_trans)
  then have "\<bar>fl (r - st)\<bar> \<le> 63 * e" using near x by linarith
  then show "\<bar>radians (fst (ticksFl fl 60 (pkg, s)))\<bar> \<le> 63 * u * R"
    by (simp add: new r_def st_def e_def)
qed

lemma ticksFl_end:
  fixes fl :: "real \<Rightarrow> real" and u R :: real
  assumes model: "\<forall>x. \<bar>fl x - x\<bar> \<le> u * \<bar>x\<bar>"
    and u: "0 \<le> u" "u \<le> 1 / 100000" and R: "0 < R"
    and pkg: "radiansBegin pkg = R" "radians pkg = R"
    and timer: "rotationTimer s = Some t"
  shows "radians (fst (ticksFl fl 61 (pkg, s))) < 0"
    and "rotationTimer (snd (ticksFl fl 61 (pkg, s))) = None
           \<longleftrightarrow> radians (fst (ticksFl fl 60 (pkg, s))) < 0"
    and "\<not> radians (fst (ticksFl fl 60 (pkg, s))) < 0
           \<longrightarrow> rotationTimer (snd (ticksFl fl 61 (pkg, s))) = Some t"
    and "rotationTimer (snd (ticksFl fl 62 (pkg, s))) = None"
    and "map_of (intervals (snd (ticksFl fl 62 (pkg, s)))) t = None"
    and "radians (fst (ticksFl fl 60 (pkg, s))) < 0
           \<longrightarrow> map_of (intervals (snd (ticksFl fl 61 (pkg, s)))) t = None"
proof -
  define st where "st = fl (fl kRotationDecelerationRate * R)"
  define e where "e = u * R"
  define r where "r = radians (fst (ticksFl fl 60 (pkg, s)))"
  have e: "0 \<le> e" "e \<le> R / 100000"
    using u R by (simp_all add: e_def mult_right_mono)
  have st: "R / 60 - e / 20 \<le> st"
    using fl_step_bounds(1) [OF model u R] by (simp add: st_def e_def)
  have I: "radiansBegin (fst (ticksFl fl 60 (pkg, s))) = R"
      "rotationTimer (snd (ticksFl fl 60 (pkg, s))) = Some t"
      "\<bar>r\<bar> \<le> 63 * e"
    using ticksFl_60 [OF model u R pkg, of s] timer by (simp_all add: r_def e_def)
  have u1: "u < 1" using u(2) by simp
  obtain p0 s0 where ps0: "ticksFl fl 60 (pkg, s) = (p0, s0)" by (cases "ticksFl fl 60 (pkg, s)")
  obtain p1 s1 where ps1: "ticksFl fl 61 (pkg, s) = (p1, s1)" by (cases "ticksFl fl 61 (pkg, s)")
  have s61: "ticksFl fl 61 (pkg, s) = rotationTimerHandlerFl fl (p0, s0)"
    using ps0 by (simp add: eval_nat_numeral)
  have s62: "ticksFl fl 62 (pkg, s) = rotationTimerHandlerFl fl (p1, s1)"
    using ps1 by (simp add: eval_nat_numeral)
  have p0: "radians p0 = r" "radiansBegin p0 = R" "rotationTimer s0 = Some t"
    using I(1,2) by (simp_all add: ps0 r_def)
  have four: "radians p1 < 0
       \<and> (rotationTimer s1 = None \<longleftrightarrow> r < 0)
       \<and> (rotationTimer s1 = None \<longrightarrow> map_of (intervals s1) t = None)
       \<and> (\<not> r < 0 \<longrightarrow> rotationTimer s1 = Some t)"
  proof (cases "r < 0")
    case True
    then have n: "radians p0 < 0" by (simp add: p0)
    have a: "p1 = p0" "rotationTimer s1 = None"
        "intervals s1 = filter (\<lambda>e. fst e \<noteq> t) (intervals s0)"
      using handlerFl_terminal [OF n, of fl s0] p0(3) ps1 by (simp_all add: s61)
    have m: "map_of (intervals s1) t = None"
      by (auto simp: a(3) map_of_eq_None_iff)
    show ?thesis using True n a(1,2) m by simp
  next
    case False
    then have n: "\<not> radians p0 < 0" by (simp add: p0)
    have a: "radians p1 = fl (r - st)" "rotationTimer s1 = Some t"
      using handlerFl_running(1,3) [OF n, of fl s0] p0 ps1 by (simp_all add: s61 st_def)
    have "r - st < 0" using I(3) st e R by linarith
    then have "fl (r - st) < 0" using fl_negative [OF model u1] by blast
    then show ?thesis using False a by simp
  qed
  then have neg61: "radians p1 < 0"
    and t61: "rotationTimer s1 = None \<longleftrightarrow> r < 0"
    and clear: "rotationTimer s1 = None \<longrightarrow> map_of (intervals s1) t = None"
    and run: "\<not> r < 0 \<longrightarrow> rotationTimer s1 = Some t"
    by blast+
  show "radians (fst (ticksFl fl 61 (pkg, s))) < 0" using neg61 by (simp add: ps1)
  show "rotationTimer (snd (ticksFl fl 61 (pkg, s))) = None
           \<longleftrightarrow> radians (fst (ticksFl fl 60 (pkg, s))) < 0"
    using t61 by (simp add: ps1 r_def)
  show "\<not> radians (fst (ticksFl fl 60 (pkg, s))) < 0
           \<longrightarrow> rotationTimer (snd (ticksFl fl 61 (pkg, s))) = Some t"
    using run by (simp add: ps1 r_def)
  show "radians (fst (ticksFl fl 60 (pkg, s))) < 0
           \<longrightarrow> map_of (intervals (snd (ticksFl fl 61 (pkg, s)))) t = None"
    using t61 clear by (simp add: ps1 r_def)
  show "rotationTimer (snd (ticksFl fl 62 (pkg, s))) = None"
    using handlerFl_terminal(2) [OF neg61, of fl s1] by (simp add: s62)
  have "intervals (snd (ticksFl fl 62 (pkg, s))) =
          (case rotationTimer s1 of None \<Rightarrow> intervals s1
           | Some t \<Rightarrow> filter (\<lambda>e. fst e \<noteq> t) (intervals s1))"
    using handlerFl_terminal(3) [OF neg61, of fl s1] by (simp add: s62)
  moreover have "rotationTimer s1 = None \<or> rotationTimer s1 = Some t"
    using t61 run by blast
  ultimately show "map_of (intervals (snd (ticksFl fl 62 (pkg, s)))) t = None"
    using clear by (auto simp: map_of_eq_None_iff)
qed

lemma relative_rounding:
  fixes c x :: real
  assumes "0 \<le> c"
  shows "\<bar>x * (1 + c) - x\<bar> \<le> c * \<bar>x\<bar>"
proof -
  have "x * (1 + c) - x = c * x" by (simp add: algebra_simps)
  then show ?thesis using assms by (simp add: abs_mult)
qed

lemma roundUp_model: "\<forall>x. \<bar>roundUp x - x\<bar> \<le> (1 / 2 ^ 53) * \<bar>x\<bar>"
  unfolding roundUp_def by (intro allI relative_rounding) simp

text \<open>
  Claim C2, as amended. Let momentum start with
  \<open>radiansBegin = radians = R > 0\<close>, and let the handler's arithmetic be rounded
  with relative error at most \<open>u \<le> 10^-5\<close> (doubles: \<open>u = 2^-53\<close>; exact
  arithmetic: \<open>u = 0\<close>). Each of the first 60 invocations of the handler is
  non-terminal and subtracts the constant \<open>kRotationDecelerationRate * R\<close>, which is
  \<open>R / 60\<close> up to \<open>u * R / 20\<close>; the remaining angle is never below 0 after
  fewer than 60 invocations, and after 60 invocations the timer is still running. After
  the 60th invocation the remaining angle is 0 up to rounding, at most \<open>63 * u * R\<close>
  in magnitude and of either sign. The animation terminates (timer cleared,
  \<open>rotationTimer\<close> null) at the 61st invocation when that value is negative and at
  the 62nd otherwise.
\<close>

theorem momentum_tick_schedule:
  fixes fl :: "real \<Rightarrow> real" and u R :: real
  assumes "\<forall>x. \<bar>fl x - x\<bar> \<le> u * \<bar>x\<bar>" and "0 \<le> u" and "u \<le> 1 / 100000"
    and "0 < R" and "radiansBegin pkg = R" and "radians pkg = R"
    and "rotationTimer s = Some t"
  shows "(n \<le> 60 \<longrightarrow>
            rotationTimer (snd (ticksFl fl n (pkg, s))) = Some t
          \<and> intervals (snd (ticksFl fl n (pkg, s))) = intervals s)
       \<and> (n < 60 \<longrightarrow>
            \<not> radians (fst (ticksFl fl n (pkg, s))) < 0
          \<and> radians (fst (ticksFl fl (Suc n) (pkg, s)))
              = fl (radians (fst (ticksFl fl n (pkg, s)))
                     - fl (fl kRotationDecelerationRate * R)))
       \<and> \<bar>fl (fl kRotationDecelerationRate * R) - R / 60\<bar> \<le> u * R / 20
       \<and> \<bar>radians (fst (ticksFl fl 60 (pkg, s)))\<bar> \<le> 63 * u * R
       \<and> radians (fst (ticksFl fl 61 (pkg, s))) < 0
       \<and> (rotationTimer (snd (ticksFl fl 61 (pkg, s))) = None
            \<longleftrightarrow> radians (fst (ticksFl fl 60 (pkg, s))) < 0)
       \<and> (radians (fst (ticksFl fl 60 (pkg, s))) < 0
            \<longrightarrow> map_of (intervals (snd (ticksFl fl 61 (pkg, s)))) t = None)
       \<and> (\<not> radians (fst (ticksFl fl 60 (pkg, s))) < 0
            \<longrightarrow> rotationTimer (snd (ticksFl fl 61 (pkg, s))) = Some t)
       \<and> rotationTimer (snd (ticksFl fl 62 (pkg, s))) = None
       \<and> map_of (intervals (snd (ticksFl fl 62 (pkg, s)))) t = None"
proof (intro conjI impI)
  assume n: "n \<le> 60"
  show "rotationTimer (snd (ticksFl fl n (pkg, s))) = Some t"
  proof (cases "n = 60")
    case True
    then show ?thesis using ticksFl_60(2) [OF assms(1-6), of s] assms(7) by simp
  next
    case False
    then have "n \<le> 59" using n by simp
    then show ?thesis using ticksFl_running [OF assms(1-6), of n s] assms(7) by simp
  qed
  show "intervals (snd (ticksFl fl n (pkg, s))) = intervals s"
  proof (cases "n = 60")
    case True
    then show ?thesis using ticksFl_60(3) [OF assms(1-6), of s] by simp
  next
    case False
    then have "n \<le> 59" using n by simp
    then show ?thesis using ticksFl_running [OF assms(1-6), of n s] by simp
  qed
next
  assume n: "n < 60"
  define st where "st = fl (fl kRotationDecelerationRate * R)"
  define e where "e = u * R"
  have e: "0 \<le> e" "e \<le> R / 100000"
    using assms(2-4) by (simp_all add: e_def mult_right_mono)
  have st': "R / 60 - e / 20 \<le> st" "st \<le> R / 60 + e / 20"
    using fl_step_bounds [OF assms(1-4)] by (simp_all add: st_def e_def)
  have st: "0 \<le> st" "st \<le> R / 60 + e / 20"
    using st' e assms(4) by linarith+
  have n59: "n \<le> 59" using n by simp
  have I: "radiansBegin (fst (ticksFl fl n (pkg, s))) = R"
      "R - real n * st - real n * e \<le> radians (fst (ticksFl fl n (pkg, s)))"
    using ticksFl_running [OF assms(1-6) n59, of s] by (simp_all add: st_def e_def)
  have "real n \<le> 59" using n59 by simp
  then have "real n * st \<le> 59 * st" "real n * e \<le> 59 * e"
    using st(1) e(1) by (simp_all add: mult_right_mono)
  then have "0 \<le> radians (fst (ticksFl fl n (pkg, s)))"
    using I(2) st(2) e by linarith
  then show nonneg: "\<not> radians (fst (ticksFl fl n (pkg, s))) < 0" by simp
  obtain p' s' where ps: "ticksFl fl n (pkg, s) = (p', s')" by (cases "ticksFl fl n (pkg, s)")
  show "radians (fst (ticksFl fl (Suc n) (pkg, s)))
      = fl (radians (fst (ticksFl fl n (pkg, s))) - fl (fl kRotationDecelerationRate * R))"
    using nonneg I(1) handlerFl_running(1) [of p' fl s'] by (simp add: ps)
next
  have "R / 60 - u * R / 20 \<le> fl (fl kRotationDecelerationRate * R)"
    and "fl (fl kRotationDecelerationRate * R) \<le> R / 60 + u * R / 20"
    using fl_step_bounds [OF assms(1-4)] by blast+
  then show "\<bar>fl (fl kRotationDecelerationRate * R) - R / 60\<bar> \<le> u * R / 20"
    by (intro abs_leI) linarith+
  show "\<bar>radians (fst (ticksFl fl 60 (pkg, s)))\<bar> \<le> 63 * u * R"
    using assms(1-6) by (rule ticksFl_60(4))
  show "radians (fst (ticksFl fl 61 (pkg, s))) < 0"
    using assms by (rule ticksFl_end(1))
  show "rotationTimer (snd (ticksFl fl 62 (pkg, s))) = None"
    using assms by (rule ticksFl_end(4))
  show "map_of (intervals (snd (ticksFl fl 62 (pkg, s)))) t = None"
    using assms by (rule ticksFl_end(5))
  show "rotationTimer (snd (ticksFl fl 61 (pkg, s))) = None
      \<longleftrightarrow> radians (fst (ticksFl fl 60 (pkg, s))) < 0"
    using assms by (rule ticksFl_end(2))
next
  assume "radians (fst (ticksFl fl 60 (pkg, s))) < 0"
  then show "map_of (intervals (snd (ticksFl fl 61 (pkg, s)))) t = None"
    using ticksFl_end(6) [OF assms] by simp
next
  assume "\<not> radians (fst (ticksFl fl 60 (pkg, s))) < 0"
  then show "rotationTimer (snd (ticksFl fl 61 (pkg, s))) = Some t"
    using ticksFl_end(3) [OF assms] by simp
qed

theorem momentum_tick_schedule_witness:
  "(\<forall>x. \<bar>roundUp x - x\<bar> \<le> (1 / 2 ^ 53) * \<bar>x\<bar>)
   \<and> (0::real) \<le> 1 / 2 ^ 53 \<and> (1::real) / 2 ^ 53 \<le> 1 / 100000
   \<and> 0 < pi / 2 \<and> radiansBegin momentumPackage = pi / 2 \<and> radians momentumPackage = pi / 2
   \<and> rotationTimer momentumController = Some 1 \<and> (30::nat) \<le> 60 \<and> (30::nat) < 60
   \<and> rotationTimer (snd (ticksFl roundUp 30 (momentumPackage, momentumController))) = Some 1
   \<and> \<not> radians (fst (ticksFl roundUp 30 (momentumPackage, momentumController))) < 0
   \<and> rotationTimer (snd (ticksFl roundUp 60 (momentumPackage, momentumController))) = Some 1
   \<and> radians (fst (ticksFl roundUp 61 (momentumPackage, momentumController))) < 0
   \<and> rotationTimer (snd (ticksFl roundUp 62 (momentumPackage, momentumController))) = None
   \<and> radians (fst (ticksFl (\<lambda>x. x) 60 (momentumPackage, momentumController))) = 0
   \<and> rotationTimer (snd (ticksFl (\<lambda>x. x) 61 (momentumPackage, momentumController))) = Some 1
   \<and> rotationTimer (snd (ticksFl (\<lambda>x. x) 62 (momentumPackage, momentumController))) = None"
proof -
  have u: "(0::real) \<le> 1 / 2 ^ 53" "(1::real) / 2 ^ 53 \<le> 1 / 100000" by simp_all
  have p: "0 < pi / 2" "radiansBegin momentumPackage = pi / 2" "radians momentumPackage = pi / 2"
    by (simp_all add: momentumPackage_def)
  have ex: "\<forall>x::real. \<bar>x - x\<bar> \<le> 0 * \<bar>x\<bar>" by simp
  have z: "(0::real) \<le> 0" "(0::real) \<le> 1 / 100000" by simp_all
  show ?thesis
    using roundUp_model u p momentumController_timer
      momentum_tick_schedule [OF roundUp_model u p momentumController_timer, of 30]
      momentum_tick_schedule [OF roundUp_model u p momentumController_timer, of 60]
      momentum_tick_schedule [of "\<lambda>x. x", OF ex z p momentumController_timer, of 60]
    by simp
qed

text \<open>
  Claim C2 as stated fails: after exactly 60 invocations, starting from the momentum that
  \<open>endDrag(flick, centre)\<close> set up with \<open>R = pi / 2\<close>, the remaining angle is
  not below 0 and the timer is still running.
\<close>

theorem sixty_ticks_counterexample:
  "0 < radians momentumPackage
   \<and> radiansBegin momentumPackage = radians momentumPackage
   \<and> map_of (intervals momentumController) 1 = Some momentumPackage
   \<and> rotationTimer momentumController = Some 1
   \<and> \<not> radians (fst (ticks 60 (momentumPackage, momentumController))) < 0
   \<and> rotationTimer (snd (ticks 60 (momentumPackage, momentumController))) = Some 1
   \<and> map_of (intervals (snd (ticks 60 (momentumPackage, momentumController)))) 1 \<noteq> None"
  using ticks_running [of "pi / 2" momentumPackage 60 momentumController]
  by (simp add: momentumPackage_def momentumController_eq kRotationDecelerationRate_def)

lemma intervalFires_running:
  assumes "map_of (intervals s) t = Some pkg" and "\<not> radians pkg < 0"
  shows "modelQuaternion (intervalFires t s) =
           multiplyQuaternions
             (setFromAxisAngle (axisOfRotation s)
                (radians pkg - kRotationDecelerationRate * radiansBegin pkg))
             (quaternionTouchDown s)"
    and "quaternion (intervalFires t s) = modelQuaternion (intervalFires t s)"
    and "quaternionTouchDown (intervalFires t s) = modelQuaternion (intervalFires t s)"
  using assms
  by (simp_all add: intervalFires_def rotationTimerHandler_def Let_def triggerRender_def)

lemma normSq_multiply:
  "quaternionNormSq (multiplyQuaternions a b) = quaternionNormSq a * quaternionNormSq b"
  by (simp add: quaternionNormSq_def multiplyQuaternions_def algebra_simps)

lemma normSq_axisAngle:
  "quaternionNormSq (setFromAxisAngle axis angle) =
     (vx axis * vx axis + vy axis * vy axis + vz axis * vz axis) * (sin (angle / 2))\<^sup>2
       + (cos (angle / 2))\<^sup>2"
  by (simp add: quaternionNormSq_def setFromAxisAngle_def Let_def power2_eq_square algebra_simps)

lemma normSq_identity: "quaternionNormSq identityQuaternion = 1"
  by (simp add: quaternionNormSq_def identityQuaternion_def)

lemma first_tick_angle:
  "0 < sin ((pi / 2 - kRotationDecelerationRate * (pi / 2)) / 2)"
  "(sin ((pi / 2 - kRotationDecelerationRate * (pi / 2)) / 2))\<^sup>2 \<noteq> 0"
proof -
  let ?h = "(pi / 2 - kRotationDecelerationRate * (pi / 2)) / 2"
  have "0 < ?h" and "?h < pi"
    by (simp_all add: kRotationDecelerationRate_def)
  then show "0 < sin ?h" by (rule sin_gt_zero)
  then show "(sin ?h)\<^sup>2 \<noteq> 0" by simp
qed

lemma short_axis_norm:
  fixes k sn cs :: real
  assumes "sn\<^sup>2 + cs\<^sup>2 = 1" and "sn\<^sup>2 \<noteq> 0" and "k < 1"
  shows "k * sn\<^sup>2 + cs\<^sup>2 < 1"
proof -
  have "0 < sn\<^sup>2" using assms(2) by (simp add: less_le)
  then have "k * sn\<^sup>2 < 1 * sn\<^sup>2" using assms(3) by (intro mult_strict_right_mono)
  then show ?thesis using assms(1) by linarith
qed

text \<open>
  Claim C3 fails on the code. \<open>endDrag\<close> starts momentum with whatever
  \<open>axisOfRotation\<close> holds. With no \<open>updateDrag\<close> before it the axis is still
  the zero vector of the constructor, and after a skipped \<open>updateDrag\<close> it is a
  cross product shorter than 0.0001; in both runs the first momentum tick writes a
  quaternion of norm below 1 into the target, the current orientation and the snapshot.
\<close>

theorem momentum_tick_not_unit:
  "quaternionNormSq (modelQuaternion idleController) = 1
   \<and> quaternionNormSq (quaternion idleController) = 1
   \<and> quaternionNormSq (quaternionTouchDown idleController) = 1
   \<and> quaternionNormSq (modelQuaternion
        (run [EndDrag flick centre, IntervalFires 1] idleController)) < 1
   \<and> quaternion (run [EndDrag flick centre, IntervalFires 1] idleController)
        = modelQuaternion (run [EndDrag flick centre, IntervalFires 1] idleController)
   \<and> quaternionTouchDown (run [EndDrag flick centre, IntervalFires 1] idleController)
        = modelQuaternion (run [EndDrag flick centre, IntervalFires 1] idleController)
   \<and> quaternionNormSq (modelQuaternion
        (run [BeginDrag centre, UpdateDrag nearCentre, EndDrag flick centre, IntervalFires 1]
           idleController)) < 1"
proof -
  let ?s1 = "endDrag flick centre idleController"
  have s1: "?s1 = idleController\<lparr>isDragging := False, quaternionTouchDown := identityQuaternion,
             intervals := [(1, momentumPackage)], nextIntervalId := 2, rotationTimer := Some 1\<rparr>"
    by (simp add: endDrag_flick idleController_fields idleController_more_fields)
  have l1: "map_of (intervals ?s1) 1 = Some momentumPackage" by (simp add: s1)
  have r: "\<not> radians momentumPackage < 0" by (simp add: momentumPackage_def)
  have sc: "(sin ((pi / 2 - kRotationDecelerationRate * (pi / 2)) / 2))\<^sup>2
          + (cos ((pi / 2 - kRotationDecelerationRate * (pi / 2)) / 2))\<^sup>2 = 1"
    by (rule sin_cos_squared_add)
  have ax1: "axisOfRotation ?s1 = \<lparr>vx = 0, vy = 0, vz = 0\<rparr>"
    and td1: "quaternionTouchDown ?s1 = identityQuaternion"
    by (simp_all add: s1 idleController_more_fields)
  have n1: "quaternionNormSq (modelQuaternion (intervalFires 1 ?s1)) < 1"
    unfolding intervalFires_running(1) [OF l1 r] ax1 td1 normSq_multiply normSq_axisAngle
      normSq_identity
    using short_axis_norm [OF sc first_tick_angle(2), of 0]
    by (simp add: momentumPackage_def)
  let ?d2 = "updateDrag nearCentre draggingController"
  have c: "crossVectors (startVector draggingController)
       (ballLocationInCameraSpaceXYPlane draggingController nearCentre)
       = \<lparr>vx = 0, vy = 0.00005, vz = 0\<rparr>"
    by (simp add: drag_points draggingController_fields crossVectors_def)
  have h: "lengthV (crossVectors (startVector draggingController)
       (ballLocationInCameraSpaceXYPlane draggingController nearCentre)) < 0.0001"
    using length_small by (simp add: c)
  have d2: "?d2 = draggingController\<lparr>angleOfRotation := angleBetween (startVector draggingController)
                 (ballLocationInCameraSpaceXYPlane draggingController nearCentre),
             axisOfRotation := \<lparr>vx = 0, vy = 0.00005, vz = 0\<rparr>\<rparr>"
    by (simp add: updateDrag_skipped [OF h] c)
  let ?d3 = "endDrag flick centre ?d2"
  have d3: "?d3 = ?d2\<lparr>isDragging := False, quaternionTouchDown := quaternion ?d2,
             intervals := intervals ?d2 @ [(nextIntervalId ?d2, momentumPackage)],
             nextIntervalId := Suc (nextIntervalId ?d2),
             rotationTimer := Some (nextIntervalId ?d2)\<rparr>"
    by (rule endDrag_flick) (simp_all add: updateDrag_frame draggingController_fields)
  have f: "intervals ?d2 = []" "nextIntervalId ?d2 = 1" "quaternion ?d2 = identityQuaternion"
    by (simp_all add: d2 draggingController_fields)
  have l2: "map_of (intervals ?d3) 1 = Some momentumPackage"
    by (simp add: d3 f)
  have ax: "axisOfRotation ?d3 = \<lparr>vx = 0, vy = 0.00005, vz = 0\<rparr>"
    and td: "quaternionTouchDown ?d3 = identityQuaternion"
    by (simp_all add: d3 f) (simp add: d2)
  have n2: "quaternionNormSq (modelQuaternion (intervalFires 1 ?d3)) < 1"
    unfolding intervalFires_running(1) [OF l2 r] ax td normSq_multiply normSq_axisAngle
      normSq_identity
    using short_axis_norm [OF sc first_tick_angle(2), of "0.00005 * 0.00005"]
    by (simp add: momentumPackage_def)
  have i: "quaternionNormSq (modelQuaternion idleController) = 1"
      "quaternionNormSq (quaternion idleController) = 1"
      "quaternionNormSq (quaternionTouchDown idleController) = 1"
    by (simp_all add: idleController_more_fields normSq_identity)
  have dc: "beginDrag centre idleController = draggingController"
    by (simp add: draggingController_def centre_def)
  show ?thesis
    unfolding run.simps step.simps dc
    using i n1 n2 intervalFires_running(2,3) [OF l1 r] by (intro conjI)
qed

text \<open>
  Claim C7 fails on the code. \<open>endDrag\<close> does not clear a running timer before it
  calls \<open>setInterval\<close>: after two calls of \<open>endDrag\<close> in a row two interval
  timers are running, \<open>rotationTimer\<close> holds only the second, and a later
  \<open>beginDrag\<close> and \<open>stopDrag\<close> leave the first one running.
\<close>

theorem endDrag_twice_two_timers:
  "map fst (intervals (run [EndDrag flick centre] idleController)) = [1]
   \<and> rotationTimer (run [EndDrag flick centre] idleController) = Some 1
   \<and> map fst (intervals (run [EndDrag flick centre, EndDrag flick centre] idleController)) = [1, 2]
   \<and> rotationTimer (run [EndDrag flick centre, EndDrag flick centre] idleController) = Some 2
   \<and> map fst (intervals (run [EndDrag flick centre, EndDrag flick centre, BeginDrag centre, StopDrag]
        idleController)) = [1]"
proof -
  let ?s1 = "endDrag flick centre idleController"
  let ?s2 = "endDrag flick centre ?s1"
  have s1: "?s1 = idleController\<lparr>isDragging := False, quaternionTouchDown := identityQuaternion,
             intervals := [(1, momentumPackage)], nextIntervalId := 2, rotationTimer := Some 1\<rparr>"
    by (simp add: endDrag_flick idleController_fields idleController_more_fields)
  have s2: "?s2 = idleController\<lparr>isDragging := False, quaternionTouchDown := identityQuaternion,
             intervals := [(1, momentumPackage), (2, momentumPackage)],
             nextIntervalId := 3, rotationTimer := Some 2\<rparr>"
    by (simp add: s1 endDrag_flick idleController_fields idleController_more_fields)
  have s4: "map fst (intervals (stopDrag (beginDrag centre ?s2))) = [1]"
    by (simp add: s2 beginDrag_def stopDrag_def clearInterval_def Let_def)
  have a: "map fst (intervals ?s1) = [1]" and b: "rotationTimer ?s1 = Some 1"
    by (simp_all add: s1)
  have c: "map fst (intervals ?s2) = [1, 2]" and d: "rotationTimer ?s2 = Some 2"
    by (simp_all add: s2)
  show ?thesis
    unfolding run.simps step.simps using a b c d s4 by (intro conjI)
qed

section \<open>Dragging and momentum exclude each other\<close>

lemma beginDrag_flags:
  "isDragging (beginDrag p s)" "rotationTimer (beginDrag p s) = None"
  by (auto simp add: beginDrag_def Let_def clearInterval_def split: option.split)

lemma endDrag_flag: "\<not> isDragging (endDrag v l s)"
  by (simp add: endDrag_def Let_def setInterval_def)

lemma stopDrag_flags:
  "\<not> isDragging (stopDrag s)" "rotationTimer (stopDrag s) = None"
  by (auto simp add: stopDrag_def Let_def clearInterval_def split: option.split)

lemma triggerRender_flags:
  "isDragging (triggerRender s) = isDragging s"
  "rotationTimer (triggerRender s) = rotationTimer s"
  by (simp_all add: triggerRender_def)

lemma updateDrag_flags:
  "isDragging (updateDrag p s) = isDragging s"
  "rotationTimer (updateDrag p s) = rotationTimer s"
  by (simp_all add: updateDrag_def Let_def triggerRender_flags)

lemma handler_flags:
  "isDragging (snd (rotationTimerHandler (pkg, s))) = isDragging s"
  "rotationTimer (snd (rotationTimerHandler (pkg, s))) = rotationTimer s
     \<or> rotationTimer (snd (rotationTimerHandler (pkg, s))) = None"
  by (simp_all add: rotationTimerHandler_def Let_def triggerRender_flags clearInterval_def
      split: option.split)

lemma intervalFires_flags:
  "isDragging (intervalFires t s) = isDragging s"
  "rotationTimer (intervalFires t s) = rotationTimer s \<or> rotationTimer (intervalFires t s) = None"
proof -
  show "isDragging (intervalFires t s) = isDragging s"
  proof (cases "map_of (intervals s) t")
    case None
    then show ?thesis by (simp add: intervalFires_def)
  next
    case (Some pkg)
    then show ?thesis
      using handler_flags(1) [of pkg s]
      by (simp add: intervalFires_def split_beta Let_def)
  qed
  show "rotationTimer (intervalFires t s) = rotationTimer s \<or> rotationTimer (intervalFires t s) = None"
  proof (cases "map_of (intervals s) t")
    case None
    then show ?thesis by (simp add: intervalFires_def)
  next
    case (Some pkg)
    then show ?thesis
      using handler_flags(2) [of pkg s]
      by (simp add: intervalFires_def split_beta Let_def)
  qed
qed

lemma applyRotation_flags:
  "isDragging (applyRotation ax an s) = isDragging s"
  "rotationTimer (applyRotation ax an s) = rotationTimer s"
  by (simp_all add: applyRotation_def Let_def triggerRender_flags)

lemma setRotationEuler_flags:
  "isDragging (setRotationEuler x y z s) = isDragging s"
  "rotationTimer (setRotationEuler x y z s) = rotationTimer s"
  by (simp_all add: setRotationEuler_def Let_def triggerRender_flags)

lemma step_exclusive:
  assumes "exclusive s"
  shows "exclusive (step e s)"
proof (cases e)
  case (IntervalFires t)
  then show ?thesis
    using assms intervalFires_flags [of t s] by (auto simp: exclusive_def)
qed (use assms in \<open>simp_all add: exclusive_def beginDrag_flags endDrag_flag stopDrag_flags
      updateDrag_flags applyRotation_flags setRotationEuler_flags reshape_def
      rotateClockwise_def rotateCounterclockwise_def nudgePitchUp_def nudgePitchDown_def
      nudgeRoll_def\<close>)

lemma run_exclusive: "exclusive s \<Longrightarrow> exclusive (run es s)"
  by (induction es arbitrary: s) (simp_all add: step_exclusive)

lemma beginDrag_cancels:
  assumes "rotationTimer s = Some t"
  shows "map_of (intervals (beginDrag p s)) t = None"
    and "intervals (beginDrag p s) = filter (\<lambda>e. fst e \<noteq> t) (intervals s)"
  using assms
  by (auto simp add: beginDrag_def Let_def clearInterval_def map_of_eq_None_iff)

lemma stopDrag_cancels:
  assumes "rotationTimer s = Some t"
  shows "map_of (intervals (stopDrag s)) t = None"
    and "intervals (stopDrag s) = filter (\<lambda>e. fst e \<noteq> t) (intervals s)"
  using assms
  by (auto simp add: stopDrag_def Let_def clearInterval_def map_of_eq_None_iff)

text \<open>
  Claim C6. After every sequence of events on a freshly constructed controller,
  \<open>isDragging\<close> and a non-null \<open>rotationTimer\<close> do not hold together.
  \<open>beginDrag\<close> cancels the momentum timer held in \<open>rotationTimer\<close> (it is
  removed from the running intervals, and nothing else is), leaves
  \<open>rotationTimer\<close> null and sets \<open>isDragging\<close>; \<open>endDrag\<close> clears
  \<open>isDragging\<close>; \<open>stopDrag\<close> clears \<open>isDragging\<close>, cancels the timer
  in the same way and leaves \<open>rotationTimer\<close> null.
\<close>

theorem drag_and_momentum_exclusive:
  "\<not> (isDragging (run es (constructor mq rect)) \<and> rotationTimer (run es (constructor mq rect)) \<noteq> None)
   \<and> isDragging (beginDrag p s) \<and> rotationTimer (beginDrag p s) = None
   \<and> (rotationTimer s = Some t \<longrightarrow>
         map_of (intervals (beginDrag p s)) t = None
       \<and> intervals (beginDrag p s) = filter (\<lambda>e. fst e \<noteq> t) (intervals s))
   \<and> \<not> isDragging (endDrag v l s)
   \<and> \<not> isDragging (stopDrag s) \<and> rotationTimer (stopDrag s) = None
   \<and> (rotationTimer s = Some t \<longrightarrow>
         map_of (intervals (stopDrag s)) t = None
       \<and> intervals (stopDrag s) = filter (\<lambda>e. fst e \<noteq> t) (intervals s))"
proof -
  have "exclusive (constructor mq rect)"
    by (simp add: exclusive_def constructor_def)
  then have "exclusive (run es (constructor mq rect))"
    by (rule run_exclusive)
  then have inv: "\<not> (isDragging (run es (constructor mq rect))
      \<and> rotationTimer (run es (constructor mq rect)) \<noteq> None)"
    by (simp add: exclusive_def)
  show ?thesis
    using inv beginDrag_flags [of p s] endDrag_flag [of v l s] stopDrag_flags [of s]
      beginDrag_cancels [of s t p] stopDrag_cancels [of s t]
    by blast
qed

theorem drag_and_momentum_exclusive_witness:
  "rotationTimer momentumController = Some 1
   \<and> map_of (intervals momentumController) 1 = Some momentumPackage
   \<and> \<not> isDragging (run [BeginDrag centre, EndDrag flick centre] idleController)
   \<and> rotationTimer (run [BeginDrag centre, EndDrag flick centre] idleController) = Some 1
   \<and> isDragging (beginDrag centre momentumController)
   \<and> rotationTimer (beginDrag centre momentumController) = None
   \<and> map_of (intervals (beginDrag centre momentumController)) 1 = None
   \<and> intervals (beginDrag centre momentumController) = []
   \<and> \<not> isDragging (stopDrag momentumController)
   \<and> rotationTimer (stopDrag momentumController) = None
   \<and> map_of (intervals (stopDrag momentumController)) 1 = None
   \<and> intervals (stopDrag momentumController) = []"
proof -
  have dc: "beginDrag centre idleController = draggingController"
    by (simp add: draggingController_def centre_def)
  have e: "endDrag flick centre draggingController =
           draggingController\<lparr>isDragging := False,
             quaternionTouchDown := quaternion draggingController,
             intervals := intervals draggingController
               @ [(nextIntervalId draggingController, momentumPackage)],
             nextIntervalId := Suc (nextIntervalId draggingController),
             rotationTimer := Some (nextIntervalId draggingController)\<rparr>"
    by (rule endDrag_flick) (simp_all add: draggingController_fields)
  have t: "rotationTimer (run [BeginDrag centre, EndDrag flick centre] idleController) = Some 1"
    unfolding run.simps step.simps dc e by (simp add: draggingController_fields)
  have m: "intervals momentumController = [(1, momentumPackage)]"
    by (simp add: momentumController_eq)
  show ?thesis
    using t m momentumController_timer
      drag_and_momentum_exclusive [where es = "[BeginDrag centre, EndDrag flick centre]"
        and mq = identityQuaternion and rect = "\<lparr>width = 800, height = 600\<rparr>"
        and p = centre and s = momentumController and t = 1 and v = flick and l = centre]
    by (simp add: idleController_def)
qed

section \<open>Euler angles\<close>

lemma euler_poly:
  fixes c1 s1 c2 s2 c3 s3 :: real
  assumes "s1\<^sup>2 + c1\<^sup>2 = 1" and "s2\<^sup>2 + c2\<^sup>2 = 1" and "s3\<^sup>2 + c3\<^sup>2 = 1"
  defines "x \<equiv> s1 * c2 * c3 + c1 * s2 * s3"
    and "y \<equiv> c1 * s2 * c3 - s1 * c2 * s3"
    and "z \<equiv> c1 * c2 * s3 + s1 * s2 * c3"
    and "w \<equiv> c1 * c2 * c3 - s1 * s2 * s3"
  shows "x * (z + z) + w * (y + y) = 2 * s2 * c2"
    and "- (y * (z + z) - w * (x + x)) = (c2\<^sup>2 - s2\<^sup>2) * (2 * s1 * c1)"
    and "1 - (x * (x + x) + y * (y + y)) = (c2\<^sup>2 - s2\<^sup>2) * (c1\<^sup>2 - s1\<^sup>2)"
    and "- (x * (y + y) - w * (z + z)) = (c2\<^sup>2 - s2\<^sup>2) * (2 * s3 * c3)"
    and "1 - (y * (y + y) + z * (z + z)) = (c2\<^sup>2 - s2\<^sup>2) * (c3\<^sup>2 - s3\<^sup>2)"
  using assms(1-3) unfolding x_def y_def z_def w_def
  by algebra+

lemma half_angle:
  fixes a :: real
  shows "sin a = 2 * sin (a / 2) * cos (a / 2)"
    and "cos a = (cos (a / 2))\<^sup>2 - (sin (a / 2))\<^sup>2"
  using sin_double [of "a / 2"] cos_double [of "a / 2"] by simp_all

lemma euler_matrix:
  fixes a b c :: real
  defines "q \<equiv> setFromEuler \<lparr>ex = a, ey = b, ez = c\<rparr>"
  shows "qx q * (qz q + qz q) + qw q * (qy q + qy q) = sin b"
    and "- (qy q * (qz q + qz q) - qw q * (qx q + qx q)) = cos b * sin a"
    and "1 - (qx q * (qx q + qx q) + qy q * (qy q + qy q)) = cos b * cos a"
    and "- (qx q * (qy q + qy q) - qw q * (qz q + qz q)) = cos b * sin c"
    and "1 - (qy q * (qy q + qy q) + qz q * (qz q + qz q)) = cos b * cos c"
  unfolding q_def setFromEuler_def Let_def half_angle [of a] half_angle [of b] half_angle [of c]
  using euler_poly [of "sin (a / 2)" "cos (a / 2)" "sin (b / 2)" "cos (b / 2)"
      "sin (c / 2)" "cos (c / 2)"]
  by simp_all

lemma atan2_sin_cos:
  fixes k a :: real
  assumes "0 < k" and "- pi < a" and "a \<le> pi"
  shows "atan2 (k * sin a) (k * cos a) = a"
proof -
  have quot: "k * sin a / (k * cos a) = tan a"
    using assms(1) by (simp add: tan_def)
  consider (left) "a < - (pi / 2)" | (bottom) "a = - (pi / 2)"
    | (mid) "- (pi / 2) < a" "a < pi / 2" | (top) "a = pi / 2" | (right) "pi / 2 < a"
    by linarith
  then show ?thesis
  proof cases
    case left
    have "0 < cos (a + pi)" using left assms(2) by (intro cos_gt_zero_pi) linarith+
    then have c: "cos a < 0" by simp
    have "0 < sin (- a)" using left assms(2) by (intro sin_gt_zero) linarith+
    then have sn: "sin a < 0" by simp
    have "arctan (tan (a + pi)) = a + pi"
      using left assms(2) by (intro arctan_tan) linarith+
    then have at: "arctan (tan a) = a + pi" by (simp add: tan_periodic_pi)
    have kc: "k * cos a < 0" and ks: "k * sin a < 0"
      using assms(1) c sn by (simp_all add: mult_pos_neg)
    have nkc: "\<not> 0 < k * cos a" and nks: "\<not> 0 \<le> k * sin a"
      using kc ks by linarith+
    show ?thesis
      unfolding atan2_def quot by (simp only: kc nkc nks if_True if_False at)
  next
    case bottom
    have "atan2 (k * sin (- (pi / 2))) (k * cos (- (pi / 2))) = - (pi / 2)"
      using assms(1) by (simp add: atan2_def)
    then show ?thesis unfolding bottom .
  next
    case mid
    then have "0 < cos a" by (rule cos_gt_zero_pi)
    then have kc: "0 < k * cos a" using assms(1) by simp
    have at: "arctan (tan a) = a" using mid by (rule arctan_tan)
    show ?thesis
      unfolding atan2_def quot by (simp only: kc if_True at)
  next
    case top
    have "atan2 (k * sin (pi / 2)) (k * cos (pi / 2)) = pi / 2"
      using assms(1) by (simp add: atan2_def)
    then show ?thesis unfolding top .
  next
    case right
    have "0 < cos (a - pi)" using right assms(3) by (intro cos_gt_zero_pi) linarith+
    then have c: "cos a < 0" by (simp add: cos_diff)
    have sn: "0 \<le> sin a" using right assms(3) by (intro sin_ge_zero) linarith+
    have "arctan (tan (a - pi)) = a - pi"
      using right assms(3) by (intro arctan_tan) linarith+
    moreover have "tan (a - pi) = tan a"
      using tan_periodic_pi [of "a - pi"] by simp
    ultimately have at: "arctan (tan a) = a - pi" by simp
    have kc: "k * cos a < 0" using assms(1) c by (simp add: mult_pos_neg)
    have ks: "0 \<le> k * sin a" using assms(1) sn by simp
    have nkc: "\<not> 0 < k * cos a" using kc by linarith
    show ?thesis
      unfolding atan2_def quot by (simp only: kc nkc ks if_True if_False at)
  qed
qed

lemma deg_rad_deg: "radToDeg (degToRad x) = x"
  by (simp add: radToDeg_def degToRad_def)

lemma degToRad_bounds:
  "- 180 < x \<Longrightarrow> - pi < degToRad x"
  "x \<le> 180 \<Longrightarrow> degToRad x \<le> pi"
  "- 90 < x \<Longrightarrow> - (pi / 2) < degToRad x"
  "x < 90 \<Longrightarrow> degToRad x < pi / 2"
proof -
  have p: "0 < pi / 180" by simp
  show "- 180 < x \<Longrightarrow> - pi < degToRad x"
    using mult_strict_right_mono [of "- 180" x "pi / 180"] by (simp add: degToRad_def)
  show "x \<le> 180 \<Longrightarrow> degToRad x \<le> pi"
    using mult_right_mono [of x 180 "pi / 180"] by (simp add: degToRad_def)
  show "- 90 < x \<Longrightarrow> - (pi / 2) < degToRad x"
    using mult_strict_right_mono [of "- 90" x "pi / 180"] by (simp add: degToRad_def)
  show "x < 90 \<Longrightarrow> degToRad x < pi / 2"
    using mult_strict_right_mono [of x 90 "pi / 180"] by (simp add: degToRad_def)
qed

lemma setFromQuaternion_setFromEuler:
  assumes "- pi < a" and "a \<le> pi" and "- (pi / 2) < b" and "b < pi / 2"
    and "- pi < c" and "c \<le> pi" and "\<bar>sin b\<bar> < 0.9999999"
  shows "setFromQuaternion (setFromEuler \<lparr>ex = a, ey = b, ez = c\<rparr>) = \<lparr>ex = a, ey = b, ez = c\<rparr>"
proof -
  have k: "0 < cos b" using assms(3,4) by (rule cos_gt_zero_pi)
  have y: "arcsin (clamp (sin b) (- 1) 1) = b"
    using assms(3,4) by (simp add: clamp_def arcsin_sin)
  have x: "atan2 (cos b * sin a) (cos b * cos a) = a"
    using k assms(1,2) by (rule atan2_sin_cos)
  have z: "atan2 (cos b * sin c) (cos b * cos c) = c"
    using k assms(5,6) by (rule atan2_sin_cos)
  show ?thesis
    unfolding setFromQuaternion_def Let_def euler_matrix
    using assms(7) by (simp add: x y z)
qed

lemma setFromQuaternion_ey:
  "ey (setFromQuaternion (setFromEuler \<lparr>ex = a, ey = b, ez = c\<rparr>)) = arcsin (sin b)"
proof -
  have "clamp (sin b) (- 1) 1 = sin b" by (simp add: clamp_def)
  then show ?thesis
    unfolding setFromQuaternion_def Let_def euler_matrix by simp
qed

lemma getRotationEuler_ey:
  "ey (getRotationEuler (setRotationEuler x y z s)) = radToDeg (arcsin (sin (degToRad y)))"
proof -
  have m: "modelQuaternion (setRotationEuler x y z s)
           = setFromEuler \<lparr>ex = degToRad x, ey = degToRad y, ez = degToRad z\<rparr>"
    by (simp add: setRotationEuler_def Let_def triggerRender_def)
  show ?thesis
    by (simp add: getRotationEuler_def Let_def m setFromQuaternion_ey)
qed

lemma sin_45_degrees: "\<bar>sin (degToRad 45)\<bar> < 0.9999999"
proof -
  have "sqrt 2 < 3 / 2"
    by (rule real_less_lsqrt) (simp_all add: power2_eq_square)
  then have "\<bar>sqrt 2 / 2\<bar> < 0.9999999" by simp
  moreover have "degToRad 45 = pi / 4" by (simp add: degToRad_def)
  ultimately show ?thesis by (simp only: sin_45)
qed

text \<open>
  Claim C9, as amended. For angles in degrees with \<open>x\<close> and \<open>z\<close> in
  \<open>(-180, 180]\<close>, \<open>y\<close> in \<open>(-90, 90)\<close> and
  \<open>|sin y| < 0.9999999\<close> (the guard of three.js against gimbal lock),
  \<open>setRotationEuler(x, y, z)\<close> followed by \<open>getRotationEuler()\<close> returns
  \<open>(x, y, z)\<close>. \<open>setRotationEuler\<close> writes the constructed orientation to the
  target, the current orientation and the drag-start snapshot; \<open>getRotationEuler\<close>
  is a function of the controller and returns only the angles.
\<close>

theorem euler_round_trip:
  assumes "- 180 < x" and "x \<le> 180" and "- 90 < y" and "y < 90"
    and "- 180 < z" and "z \<le> 180" and "\<bar>sin (degToRad y)\<bar> < 0.9999999"
  shows "getRotationEuler (setRotationEuler x y z s) = \<lparr>ex = x, ey = y, ez = z\<rparr>
       \<and> modelQuaternion (setRotationEuler x y z s)
           = setFromEuler \<lparr>ex = degToRad x, ey = degToRad y, ez = degToRad z\<rparr>
       \<and> quaternion (setRotationEuler x y z s) = modelQuaternion (setRotationEuler x y z s)
       \<and> quaternionTouchDown (setRotationEuler x y z s) = modelQuaternion (setRotationEuler x y z s)"
proof -
  have m: "modelQuaternion (setRotationEuler x y z s)
           = setFromEuler \<lparr>ex = degToRad x, ey = degToRad y, ez = degToRad z\<rparr>"
    and q: "quaternion (setRotationEuler x y z s) = modelQuaternion (setRotationEuler x y z s)"
    and t: "quaternionTouchDown (setRotationEuler x y z s) = modelQuaternion (setRotationEuler x y z s)"
    by (simp_all add: setRotationEuler_def Let_def triggerRender_def)
  have "setFromQuaternion (setFromEuler \<lparr>ex = degToRad x, ey = degToRad y, ez = degToRad z\<rparr>)
      = \<lparr>ex = degToRad x, ey = degToRad y, ez = degToRad z\<rparr>"
    using assms by (intro setFromQuaternion_setFromEuler degToRad_bounds)
  then have "getRotationEuler (setRotationEuler x y z s) = \<lparr>ex = x, ey = y, ez = z\<rparr>"
    by (simp add: getRotationEuler_def Let_def m deg_rad_deg)
  then show ?thesis using m q t by simp
qed

theorem euler_round_trip_witness:
  "- 180 < (30::real) \<and> (30::real) \<le> 180 \<and> - 90 < (45::real) \<and> (45::real) < 90
   \<and> - 180 < (60::real) \<and> (60::real) \<le> 180 \<and> \<bar>sin (degToRad 45)\<bar> < 0.9999999
   \<and> getRotationEuler (setRotationEuler 30 45 60 idleController) = \<lparr>ex = 30, ey = 45, ez = 60\<rparr>
   \<and> quaternion (setRotationEuler 30 45 60 idleController)
        = modelQuaternion (setRotationEuler 30 45 60 idleController)
   \<and> quaternionTouchDown (setRotationEuler 30 45 60 idleController)
        = modelQuaternion (setRotationEuler 30 45 60 idleController)"
  using euler_round_trip [of 30 45 60 idleController] sin_45_degrees by simp

text \<open>
  Claim C9 as stated fails outside these ranges, away from gimbal lock:
  \<open>setRotationEuler(30, 100, 60)\<close> followed by \<open>getRotationEuler()\<close>
  returns 80 as its \<open>y\<close>, since the extraction takes \<open>y\<close> from an arcsine.
\<close>

theorem euler_round_trip_counterexample:
  "ey (getRotationEuler (setRotationEuler 30 100 60 idleController)) = 80
   \<and> getRotationEuler (setRotationEuler 30 100 60 idleController) \<noteq> \<lparr>ex = 30, ey = 100, ez = 60\<rparr>"
proof -
  have d: "degToRad 100 = pi - 4 * pi / 9" by (simp add: degToRad_def)
  have sn: "sin (degToRad 100) = sin (4 * pi / 9)"
    unfolding d by (rule sin_pi_minus)
  have as: "arcsin (sin (4 * pi / 9)) = 4 * pi / 9"
  proof (rule arcsin_sin)
    show "- (pi / 2) \<le> 4 * pi / 9" using pi_gt_zero by linarith
    show "4 * pi / 9 \<le> pi / 2" using pi_gt_zero by linarith
  qed
  have "radToDeg (4 * pi / 9) = 80" by (simp add: radToDeg_def)
  then have e: "ey (getRotationEuler (setRotationEuler 30 100 60 idleController)) = 80"
    by (simp only: getRotationEuler_ey sn as)
  then have "ey (getRotationEuler (setRotationEuler 30 100 60 idleController))
      \<noteq> ey \<lparr>ex = 30, ey = 100, ez = 60\<rparr>"
    by simp
  then have "getRotationEuler (setRotationEuler 30 100 60 idleController)
      \<noteq> \<lparr>ex = 30, ey = 100, ez = 60\<rparr>"
    by metis
  then show ?thesis using e by simp
qed

end
